theory Spec2Isabelle
  imports Main "HOL-Library.Word"
begin

section \<open>Provider selection (trading-authority.factory.ts)\<close>

text \<open>
  The factory module keeps one module-level variable \<open>_provider\<close>. A provider object is
  modelled by the class that was instantiated, the persistence handle handed to its
  constructor, and an object identity drawn from an allocation counter, so that "the same
  instance" can be told apart from "an equal instance".
\<close>

record config =
  DYNAMIC_API_KEY :: "string option"
  NODE_ENV :: string

datatype provider_class = DynamicServerWalletProvider | MockDynamicServerWalletProvider

record provider =
  prov_class :: provider_class
  prov_prisma :: nat
  prov_object :: nat

record factory_module =
  provider_var :: "provider option"
  objects_allocated :: nat

text \<open>JavaScript truthiness of a \<open>string | undefined\<close>: defined and not empty.\<close>

definition truthy :: "string option \<Rightarrow> bool" where
  "truthy v = (case v of None \<Rightarrow> False | Some s \<Rightarrow> s \<noteq> [])"

definition new_provider :: "provider_class \<Rightarrow> nat \<Rightarrow> factory_module \<Rightarrow> provider" where
  "new_provider c prisma m = \<lparr>prov_class = c, prov_prisma = prisma, prov_object = objects_allocated m\<rparr>"

definition getTradingAuthorityProvider ::
  "config \<Rightarrow> nat \<Rightarrow> factory_module \<Rightarrow> provider \<times> factory_module" where
  "getTradingAuthorityProvider cfg prisma m =
     (case provider_var m of
        Some p \<Rightarrow> (p, m)
      | None \<Rightarrow>
          (let p = (if truthy (DYNAMIC_API_KEY cfg) \<and> NODE_ENV cfg = ''production''
                    then new_provider DynamicServerWalletProvider prisma m
                    else new_provider MockDynamicServerWalletProvider prisma m)
           in (p, \<lparr>provider_var = Some p, objects_allocated = Suc (objects_allocated m)\<rparr>)))"

definition resetTradingAuthorityProvider :: "factory_module \<Rightarrow> factory_module" where
  "resetTradingAuthorityProvider m = m\<lparr>provider_var := None\<rparr>"

text \<open>A freshly loaded module, and a run of calls, each with the configuration
  \<open>getConfig()\<close> would return at that moment and the handle the caller passes.\<close>

definition module_loaded :: factory_module where
  "module_loaded = \<lparr>provider_var = None, objects_allocated = 0\<rparr>"

fun get_calls :: "(config \<times> nat) list \<Rightarrow> factory_module \<Rightarrow> provider list \<times> factory_module" where
  "get_calls [] m = ([], m)"
| "get_calls ((cfg, prisma) # cs) m =
     (let (p, m1) = getTradingAuthorityProvider cfg prisma m;
          (ps, m2) = get_calls cs m1
      in (p # ps, m2))"

section \<open>Values of the run-time\<close>

subsection \<open>Errors\<close>

text \<open>
  Modelled from the spec: the class \<open>AppError\<close> and the table \<open>ErrorCodes\<close> of the shared
  package, which the sources import and do not contain. The codes are the ones the provider
  uses, one for each error of the taxonomy (\<open>SignerNotReady\<close>,
  \<open>ServerWalletCreationFailed\<close>, \<open>RateLimited\<close>, \<open>SigningUnavailable\<close>) and \<open>NOT_FOUND\<close>.
  An \<open>AppError\<close> carries code, message and HTTP status and is taken to be a subclass of
  \<open>Error\<close>, so that \<open>error instanceof Error\<close> holds for it and \<open>error.message\<close> is the
  message given to its constructor. A thrown value is a plain \<open>Error\<close> with its message
  or an \<open>AppError\<close>.
\<close>

datatype ErrorCodes =
  SERVER_WALLET_NOT_READY | SERVER_WALLET_CREATION_FAILED | RATE_LIMITED
  | SIGNING_UNAVAILABLE | NOT_FOUND

datatype js_error = JsError string | AppError ErrorCodes string nat

fun instanceof_AppError :: "js_error \<Rightarrow> bool" where
  "instanceof_AppError (AppError c m s) = True"
| "instanceof_AppError (JsError m) = False"

fun error_message :: "js_error \<Rightarrow> string" where
  "error_message (JsError m) = m"
| "error_message (AppError c m s) = m"

text \<open>The \<open>TypeError\<close> of reading property \<open>prop\<close> of \<open>null\<close>.\<close>

definition null_read_error :: "string \<Rightarrow> js_error" where
  "null_read_error prop =
     JsError (''Cannot read properties of null (reading '' @ [CHR 0x27] @ prop @ [CHR 0x27] @ '')'')"

subsection \<open>Numbers and their decimal text\<close>

text \<open>
  A JavaScript number is modelled as an integer or \<open>NaN\<close>; the model is exact where the
  double is, that is for magnitudes below \<open>2 ^ 53\<close>.
\<close>

datatype js_number = NaN | Num int

fun js_times :: "js_number \<Rightarrow> int \<Rightarrow> js_number" where
  "js_times NaN k = NaN"
| "js_times (Num n) k = Num (n * k)"

definition is_space :: "char \<Rightarrow> bool" where
  "is_space c = (c \<in> set [CHR '' '', CHR 0x09, CHR 0x0A, CHR 0x0B, CHR 0x0C, CHR 0x0D])"

definition is_digit :: "char \<Rightarrow> bool" where
  "is_digit c = (48 \<le> (of_char c :: nat) \<and> (of_char c :: nat) \<le> 57)"

definition digits_value :: "string \<Rightarrow> nat" where
  "digits_value ds = foldl (\<lambda>acc c. 10 * acc + (of_char c - 48)) 0 ds"

text \<open>\<open>parseInt(s, 10)\<close>: leading white space (here the ASCII one) is skipped, one sign
  is read, and the longest run of decimal digits that follows is the value; with no digit
  it is \<open>NaN\<close>.\<close>

definition parseInt10 :: "string \<Rightarrow> js_number" where
  "parseInt10 s =
     (let t = dropWhile is_space s;
          neg = (t \<noteq> [] \<and> hd t = CHR ''-'');
          u = (if t \<noteq> [] \<and> (hd t = CHR ''-'' \<or> hd t = CHR ''+'') then tl t else t);
          ds = takeWhile is_digit u
      in if ds = [] then NaN
         else Num ((if neg then - 1 else 1) * int (digits_value ds)))"

definition digit_char :: "nat \<Rightarrow> char" where
  "digit_char d = char_of (48 + d)"

text \<open>The text a template literal gives a non-negative integer.\<close>

function show_nat :: "nat \<Rightarrow> string" where
  "show_nat n = (if n < 10 then [digit_char n] else show_nat (n div 10) @ [digit_char (n mod 10)])"
  by pat_completeness auto
termination
  by (relation "measure (\<lambda>n. n)") auto

declare show_nat.simps [simp del]

section \<open>The world the provider acts on\<close>

subsection \<open>Rows of the persistence layer\<close>

text \<open>
  Modelled from the spec: the Prisma schema is not part of the sources. The status of a
  wallet record is the enumeration \<open>{CREATING, READY, FAILED}\<close> of the data model; the
  status of a copy profile is kept as the string the code compares and writes.
\<close>

datatype wallet_status = CREATING | READY | FAILED

record server_wallet =
  sw_id :: nat
  sw_userId :: string
  sw_dynamicServerWalletId :: string
  sw_address :: string
  sw_status :: wallet_status

record wallet_row =
  wr_userId :: string
  wr_type :: string
  wr_address :: string

record copy_profile =
  cp_userId :: string
  cp_status :: string

datatype audit_action =
  SERVER_WALLET_CREATED | SERVER_WALLET_FAILED | OWNERSHIP_TRANSFERRED
  | SIGNING_REQUESTED | SIGNING_COMPLETED | SIGNING_FAILED

datatype detail = DString string | DBool bool

record audit_entry =
  au_userId :: string
  au_action :: audit_action
  au_details :: "(string \<times> detail) list"

subsection \<open>Requests, responses and observable events\<close>

datatype json =
  JString string | JNumber int | JBool bool | JArray "json list"
  | JObject "(string \<times> json) list" | JStringify json

datatype http_method = GET | POST

text \<open>
  What one \<open>fetch\<close> does: it rejects (network failure, or the 15 s abort signal), or
  it resolves to a response with a status, perhaps a \<open>Retry-After\<close> header, and a body
  that \<open>res.text()\<close> and \<open>res.json()\<close> read or fail to read. The value of
  \<open>res.json()\<close> is cast to the type the caller names and is not checked.
\<close>

datatype 'a fetch_outcome =
  FetchRejects string
  | HttpResponse nat "string option" "string + string" "string + 'a"

text \<open>
  A parsed body whose properties the caller goes on to read: JSON \<open>null\<close>, on which
  reading a property throws a \<open>TypeError\<close>, or any other value, whose properties read as
  the declared type has them. The signing operations and the poll of \<open>getAddress\<close> take
  the body this way; wallet creation takes it at its declared type.
\<close>

datatype 'a json_body = Null | Obj 'a

record request =
  rq_url :: string
  rq_method :: http_method
  rq_headers :: "(string \<times> string) list"
  rq_body :: "json option"

datatype event = EvFetch request | EvSleep js_number | EvAudit audit_entry

text \<open>
  The state: the four tables, the configuration \<open>getConfig()\<close> returns, the source of
  \<open>randomUUID()\<close> with the number of identifiers drawn so far, the counter the
  persistence layer takes row identifiers from, and the trace of every request sent,
  every sleep and every audit write, in the order they happen.
\<close>

record world =
  w_config :: config
  serverWallets :: "server_wallet list"
  wallets :: "wallet_row list"
  copyProfiles :: "copy_profile list"
  auditLogs :: "audit_entry list"
  uuid_source :: "nat \<Rightarrow> string"
  uuids_drawn :: nat
  rows_created :: nat
  trace :: "event list"

definition emit :: "event \<Rightarrow> world \<Rightarrow> world" where
  "emit e w = w\<lparr>trace := trace w @ [e]\<rparr>"

definition randomUUID :: "world \<Rightarrow> string \<times> world" where
  "randomUUID w = (uuid_source w (uuids_drawn w), w\<lparr>uuids_drawn := Suc (uuids_drawn w)\<rparr>)"

text \<open>\<open>sleep(ms)\<close> hands \<open>ms\<close> to \<open>setTimeout\<close>; the model records that argument and
  leaves the timer to the run-time.\<close>

definition sleep :: "js_number \<Rightarrow> world \<Rightarrow> world" where
  "sleep ms w = emit (EvSleep ms) w"

subsection \<open>Persistence operations\<close>

text \<open>
  A table is the list of its rows in the order they were inserted. \<open>findUnique\<close> by user
  id gives the first row of that user, \<open>update\<close> rewrites the rows with the given row id,
  \<open>create\<close> appends a row with a fresh row id, and \<open>auditLog.create\<close> appends to the log
  and shows in the trace.
\<close>

definition serverWallet_findUnique :: "string \<Rightarrow> world \<Rightarrow> server_wallet option" where
  "serverWallet_findUnique userId w = find (\<lambda>r. sw_userId r = userId) (serverWallets w)"

definition serverWallet_update ::
  "nat \<Rightarrow> (server_wallet \<Rightarrow> server_wallet) \<Rightarrow> world \<Rightarrow> world" where
  "serverWallet_update rid f w =
     w\<lparr>serverWallets := map (\<lambda>r. if sw_id r = rid then f r else r) (serverWallets w)\<rparr>"

definition serverWallet_create ::
  "string \<Rightarrow> string \<Rightarrow> string \<Rightarrow> wallet_status \<Rightarrow> world \<Rightarrow> world" where
  "serverWallet_create userId wid addr st w =
     w\<lparr>serverWallets := serverWallets w @
          [\<lparr>sw_id = rows_created w, sw_userId = userId, sw_dynamicServerWalletId = wid,
            sw_address = addr, sw_status = st\<rparr>],
       rows_created := Suc (rows_created w)\<rparr>"

definition wallet_upsert :: "string \<Rightarrow> string \<Rightarrow> string \<Rightarrow> world \<Rightarrow> world" where
  "wallet_upsert userId ty addr w =
     (if \<exists>r \<in> set (wallets w). wr_userId r = userId \<and> wr_type r = ty
      then w\<lparr>wallets := map (\<lambda>r. if wr_userId r = userId \<and> wr_type r = ty
                                  then r\<lparr>wr_address := addr\<rparr> else r) (wallets w)\<rparr>
      else w\<lparr>wallets := wallets w @ [\<lparr>wr_userId = userId, wr_type = ty, wr_address = addr\<rparr>]\<rparr>)"

definition copyProfile_updateMany :: "string \<Rightarrow> string \<Rightarrow> string \<Rightarrow> world \<Rightarrow> world" where
  "copyProfile_updateMany userId st st' w =
     w\<lparr>copyProfiles := map (\<lambda>p. if cp_userId p = userId \<and> cp_status p = st
                                then p\<lparr>cp_status := st'\<rparr> else p) (copyProfiles w)\<rparr>"

definition auditLog_create ::
  "string \<Rightarrow> audit_action \<Rightarrow> (string \<times> detail) list \<Rightarrow> world \<Rightarrow> world" where
  "auditLog_create userId action details w =
     (let e = \<lparr>au_userId = userId, au_action = action, au_details = details\<rparr>
      in emit (EvAudit e) (w\<lparr>auditLogs := auditLogs w @ [e]\<rparr>))"

section \<open>DynamicServerWalletProvider\<close>

subsection \<open>Constants and response types\<close>

definition DYNAMIC_API_BASE :: string where
  "DYNAMIC_API_BASE = ''https://app.dynamicauth.com/api/v0''"

definition MAX_RETRIES :: nat where
  "MAX_RETRIES = 3"

definition BASE_DELAY_MS :: int where
  "BASE_DELAY_MS = 500"

record DynamicCreateWalletResponse =
  cw_id :: string
  cw_address :: string
  cw_chain :: string
  cw_name :: string
  cw_status :: string

record DynamicSignResponse =
  signature :: string

record tx_response =
  txr_hash :: string
  txr_status :: string

record wallet_info =
  wi_address :: string
  wi_status :: string

subsection \<open>callDynamicWithRetry\<close>

text \<open>
  One pass of the loop body either returns, throws, or sleeps and continues. The
  \<open>try\<close> block and the \<open>catch\<close> block are kept apart as in the source: what the
  \<open>try\<close> block throws, the \<open>catch\<close> block sees, the \<open>RATE_LIMITED\<close> error included.
\<close>

datatype 'a attempt_result = Returned 'a | Thrown js_error | SleepThenContinue js_number

definition res_ok :: "nat \<Rightarrow> bool" where
  "res_ok st = (200 \<le> st \<and> st \<le> 299)"

definition method_name :: "http_method \<Rightarrow> string" where
  "method_name m = (case m of GET \<Rightarrow> ''GET'' | POST \<Rightarrow> ''POST'')"

definition try_block ::
  "string \<Rightarrow> http_method \<Rightarrow> nat \<Rightarrow> 'a fetch_outcome \<Rightarrow> 'a attempt_result" where
  "try_block path method attempt outcome =
     (case outcome of
        FetchRejects msg \<Rightarrow> Thrown (JsError msg)
      | HttpResponse st retry_after_header text parsed \<Rightarrow>
          if st = 429 then
            (let retryAfter = parseInt10 (case retry_after_header of None \<Rightarrow> ''2'' | Some v \<Rightarrow> v);
                 delay = js_times retryAfter 1000
             in if attempt < MAX_RETRIES then SleepThenContinue delay
                else Thrown (AppError RATE_LIMITED ''Dynamic API rate limited'' 429))
          else if \<not> res_ok st then
            (case text of
               Inl msg \<Rightarrow> Thrown (JsError msg)
             | Inr errorBody \<Rightarrow>
                 Thrown (JsError (''Dynamic API '' @ method_name method @ '' '' @ path
                                   @ '' failed: '' @ show_nat st @ '' '' @ errorBody)))
          else
            (case parsed of
               Inl msg \<Rightarrow> Thrown (JsError msg)
             | Inr v \<Rightarrow> Returned v))"

definition catch_block :: "nat \<Rightarrow> js_error \<Rightarrow> 'a attempt_result" where
  "catch_block attempt error =
     (if instanceof_AppError error then Thrown error
      else if attempt < MAX_RETRIES
        then SleepThenContinue (Num (BASE_DELAY_MS * 2 ^ attempt))
        else Thrown error)"

definition loop_body ::
  "string \<Rightarrow> http_method \<Rightarrow> nat \<Rightarrow> 'a fetch_outcome \<Rightarrow> 'a attempt_result" where
  "loop_body path method attempt outcome =
     (case try_block path method attempt outcome of
        Thrown error \<Rightarrow> catch_block attempt error
      | r \<Rightarrow> r)"

definition bearer :: "string option \<Rightarrow> string" where
  "bearer key = ''Bearer '' @ (case key of None \<Rightarrow> ''undefined'' | Some k \<Rightarrow> k)"

definition the_request :: "string \<Rightarrow> http_method \<Rightarrow> json option \<Rightarrow> world \<Rightarrow> request" where
  "the_request path method body w =
     \<lparr>rq_url = DYNAMIC_API_BASE @ ''/'' @ path,
      rq_method = method,
      rq_headers = [(''Authorization'', bearer (DYNAMIC_API_KEY (w_config w))),
                    (''Content-Type'', ''application/json'')],
      rq_body = map_option JStringify body\<rparr>"

text \<open>The \<open>for\<close> loop, from the value \<open>attempt\<close> has on entry. The argument
  \<open>remote\<close> gives the outcome of the \<open>fetch\<close> of each attempt.\<close>

function retry_loop ::
  "(nat \<Rightarrow> 'a fetch_outcome) \<Rightarrow> string \<Rightarrow> http_method \<Rightarrow> json option \<Rightarrow> nat \<Rightarrow> world
     \<Rightarrow> (js_error + 'a) \<times> world" where
  "retry_loop remote path method body attempt w =
     (if attempt \<le> MAX_RETRIES then
        (let w1 = emit (EvFetch (the_request path method body w)) w
         in case loop_body path method attempt (remote attempt) of
              Returned v \<Rightarrow> (Inr v, w1)
            | Thrown error \<Rightarrow> (Inl error, w1)
            | SleepThenContinue delay \<Rightarrow>
                retry_loop remote path method body (Suc attempt) (sleep delay w1))
      else (Inl (JsError ''Exhausted retries for Dynamic API call''), w))"
  by pat_completeness auto
termination
  by (relation "measure (\<lambda>(remote, path, method, body, attempt, w). Suc MAX_RETRIES - attempt)") auto

declare retry_loop.simps [simp del]

definition callDynamicWithRetry ::
  "(nat \<Rightarrow> 'a fetch_outcome) \<Rightarrow> string \<Rightarrow> http_method \<Rightarrow> json option \<Rightarrow> world
     \<Rightarrow> (js_error + 'a) \<times> world" where
  "callDynamicWithRetry remote path method body w = retry_loop remote path method body 0 w"

subsection \<open>Helpers\<close>

text \<open>
  The persistence calls are taken to succeed: the persistence engine is an external
  collaborator, and a rejected database promise is outside this model. Every thrown value
  of the model is an instance of \<open>Error\<close>.
\<close>

definition instanceof_Error :: "js_error \<Rightarrow> bool" where
  "instanceof_Error e = True"

definition message_or :: "string \<Rightarrow> js_error \<Rightarrow> string" where
  "message_or dflt error = (if instanceof_Error error then error_message error else dflt)"

definition requireReadyWallet :: "string \<Rightarrow> world \<Rightarrow> js_error + server_wallet" where
  "requireReadyWallet userId w =
     (case serverWallet_findUnique userId w of
        None \<Rightarrow> Inl (AppError SERVER_WALLET_NOT_READY ''Server wallet is not ready for signing'' 503)
      | Some sw \<Rightarrow>
          if sw_status sw \<noteq> READY
          then Inl (AppError SERVER_WALLET_NOT_READY ''Server wallet is not ready for signing'' 503)
          else Inr sw)"

definition fetchWalletFromDynamic ::
  "(nat \<Rightarrow> wallet_info json_body fetch_outcome) \<Rightarrow> string \<Rightarrow> world
     \<Rightarrow> (js_error + wallet_info json_body) \<times> world" where
  "fetchWalletFromDynamic remote walletId w =
     callDynamicWithRetry remote (''server-wallets/'' @ walletId) GET None w"

definition wrapSigningError :: "js_error \<Rightarrow> js_error" where
  "wrapSigningError error =
     (if instanceof_AppError error then error
      else AppError SIGNING_UNAVAILABLE (message_or ''Unknown signing error'' error) 503)"

definition auditSigningRequest :: "string \<Rightarrow> string \<Rightarrow> string \<Rightarrow> world \<Rightarrow> world" where
  "auditSigningRequest userId correlationId operation w =
     auditLog_create userId SIGNING_REQUESTED
       [(''correlationId'', DString correlationId), (''operation'', DString operation)] w"

definition auditSigningComplete :: "string \<Rightarrow> string \<Rightarrow> world \<Rightarrow> world" where
  "auditSigningComplete userId correlationId w =
     auditLog_create userId SIGNING_COMPLETED [(''correlationId'', DString correlationId)] w"

definition auditSigningFailed :: "string \<Rightarrow> string \<Rightarrow> js_error \<Rightarrow> world \<Rightarrow> world" where
  "auditSigningFailed userId correlationId error w =
     auditLog_create userId SIGNING_FAILED
       [(''correlationId'', DString correlationId),
        (''error'', DString (message_or ''Unknown'' error))] w"

subsection \<open>Server wallet creation\<close>

definition zero_address :: string where
  "zero_address = ''0x0000000000000000000000000000000000000000''"

text \<open>The body of the creation request; \<open>userId.slice(0, 8)\<close> is the first eight
  characters.\<close>

definition create_wallet_body :: "string \<Rightarrow> json" where
  "create_wallet_body userId =
     JObject [(''chain'', JString ''EVM''), (''name'', JString (''mirror-'' @ take 8 userId))]"

definition createServerWallet ::
  "(nat \<Rightarrow> DynamicCreateWalletResponse fetch_outcome) \<Rightarrow> string \<Rightarrow> bool \<Rightarrow> world
     \<Rightarrow> (js_error + string) \<times> world" where
  "createServerWallet remote userId isRotation w =
     (let sw = serverWallet_findUnique userId w in
      case (case sw of
              Some r \<Rightarrow> if sw_status r = READY \<and> \<not> isRotation then Some (sw_address r) else None
            | None \<Rightarrow> None) of
        Some ready_address \<Rightarrow> (Inr ready_address, w)
      | None \<Rightarrow>
        (case callDynamicWithRetry remote ''server-wallets'' POST
                (Some (create_wallet_body userId)) w of
           (Inr created, w1) \<Rightarrow>
             (let w2 =
                    (case sw of
                       Some r \<Rightarrow>
                         if isRotation then
                           serverWallet_update (sw_id r)
                             (\<lambda>x. x\<lparr>sw_dynamicServerWalletId := cw_id created,
                                     sw_address := cw_address created, sw_status := READY\<rparr>) w1
                         else
                           serverWallet_update (sw_id r)
                             (\<lambda>x. x\<lparr>sw_dynamicServerWalletId := cw_id created,
                                     sw_address := cw_address created, sw_status := READY\<rparr>) w1
                     | None \<Rightarrow>
                         serverWallet_create userId (cw_id created) (cw_address created) READY w1);
                  w3 = wallet_upsert userId ''SERVER_WALLET'' (cw_address created) w2;
                  w4 = auditLog_create userId SERVER_WALLET_CREATED
                         [(''dynamicWalletId'', DString (cw_id created)),
                          (''address'', DString (cw_address created)),
                          (''isRotation'', DBool isRotation)] w3
              in (Inr (cw_address created), w4))
         | (Inl error, w1) \<Rightarrow>
             (let w2 =
                    (case sw of
                       None \<Rightarrow>
                         (let (u, w') = randomUUID w1
                          in serverWallet_create userId (''pending-'' @ u) zero_address FAILED w')
                     | Some r \<Rightarrow>
                         serverWallet_update (sw_id r) (\<lambda>x. x\<lparr>sw_status := FAILED\<rparr>) w1);
                  w3 = auditLog_create userId SERVER_WALLET_FAILED
                         [(''error'', DString (message_or ''Unknown'' error))] w2
              in (Inl (AppError SERVER_WALLET_CREATION_FAILED
                         (''Failed to create server wallet: '' @ message_or ''Unknown'' error) 503),
                  w3))))"

subsection \<open>Core interface\<close>

text \<open>The poll of a \<open>CREATING\<close> record is not inside a \<open>try\<close>: what the remote client
  throws, and the \<open>TypeError\<close> of reading \<open>fresh.status\<close> on \<open>null\<close>, reach the caller as
  they are.\<close>

definition getAddress ::
  "(nat \<Rightarrow> wallet_info json_body fetch_outcome)
     \<Rightarrow> (nat \<Rightarrow> DynamicCreateWalletResponse fetch_outcome)
     \<Rightarrow> string \<Rightarrow> world \<Rightarrow> (js_error + string) \<times> world" where
  "getAddress poll create userId w =
     (case serverWallet_findUnique userId w of
        None \<Rightarrow> createServerWallet create userId False w
      | Some sw \<Rightarrow>
          if sw_status sw = READY then (Inr (sw_address sw), w)
          else if sw_status sw = CREATING then
            (case fetchWalletFromDynamic poll (sw_dynamicServerWalletId sw) w of
               (Inl error, w1) \<Rightarrow> (Inl error, w1)
             | (Inr Null, w1) \<Rightarrow> (Inl (null_read_error ''status''), w1)
             | (Inr (Obj fresh), w1) \<Rightarrow>
                 if wi_status fresh = ''active'' \<or> wi_status fresh = ''ready'' then
                   (Inr (wi_address fresh),
                    serverWallet_update (sw_id sw)
                      (\<lambda>x. x\<lparr>sw_status := READY, sw_address := wi_address fresh\<rparr>) w1)
                 else
                   (Inl (AppError SERVER_WALLET_NOT_READY
                           ''Server wallet is still being created'' 503), w1))
          else createServerWallet create userId False w)"

record EIP712TypedData =
  td_types :: "(string \<times> (string \<times> string) list) list"
  td_primaryType :: string
  td_domain :: "(string \<times> json) list"
  td_message :: "(string \<times> json) list"

definition typed_data_json :: "EIP712TypedData \<Rightarrow> json" where
  "typed_data_json td =
     JObject
       [(''types'', JObject (map (\<lambda>(k, fs). (k, JArray (map (\<lambda>(n, t).
            JObject [(''name'', JString n), (''type'', JString t)]) fs))) (td_types td))),
        (''primaryType'', JString (td_primaryType td)),
        (''domain'', JObject (td_domain td)),
        (''message'', JObject (td_message td))]"

text \<open>
  In the three signing operations the \<open>try\<close> block holds the remote call, the write of
  \<open>SIGNING_COMPLETED\<close> and, after that write, the reads of the result's properties. With a
  body \<open>null\<close> the read throws inside the \<open>try\<close>, so the \<open>catch\<close> block runs after
  \<open>SIGNING_COMPLETED\<close> has been written.
\<close>

definition signTypedData ::
  "(nat \<Rightarrow> DynamicSignResponse json_body fetch_outcome) \<Rightarrow> string \<Rightarrow> EIP712TypedData \<Rightarrow> world
     \<Rightarrow> (js_error + string) \<times> world" where
  "signTypedData remote userId typedData w =
     (let (correlationId, w1) = randomUUID w in
      case requireReadyWallet userId w1 of
        Inl error \<Rightarrow> (Inl error, w1)
      | Inr sw \<Rightarrow>
          (let w2 = auditSigningRequest userId correlationId ''signTypedData'' w1 in
           case callDynamicWithRetry remote
                  (''server-wallets/'' @ sw_dynamicServerWalletId sw @ ''/sign-typed-data'') POST
                  (Some (JObject [(''typedData'', JStringify (typed_data_json typedData)),
                                  (''chain'', JString ''EVM'')])) w2 of
             (Inr result, w3) \<Rightarrow>
               (let w4 = auditSigningComplete userId correlationId w3 in
                case result of
                  Obj r \<Rightarrow> (Inr (signature r), w4)
                | Null \<Rightarrow>
                    (Inl (wrapSigningError (null_read_error ''signature'')),
                     auditSigningFailed userId correlationId (null_read_error ''signature'') w4))
           | (Inl error, w3) \<Rightarrow>
               (Inl (wrapSigningError error), auditSigningFailed userId correlationId error w3)))"

datatype message = MsgString string | MsgBytes "8 word list"

definition hex_digit :: "nat \<Rightarrow> char" where
  "hex_digit d = ''0123456789abcdef'' ! d"

definition hex_byte :: "8 word \<Rightarrow> string" where
  "hex_byte b = [hex_digit (unat b div 16), hex_digit (unat b mod 16)]"

definition buffer_hex :: "8 word list \<Rightarrow> string" where
  "buffer_hex bs = concat (map hex_byte bs)"

definition signMessage ::
  "(nat \<Rightarrow> DynamicSignResponse json_body fetch_outcome) \<Rightarrow> string \<Rightarrow> message \<Rightarrow> world
     \<Rightarrow> (js_error + string) \<times> world" where
  "signMessage remote userId msg w =
     (let (correlationId, w1) = randomUUID w in
      case requireReadyWallet userId w1 of
        Inl error \<Rightarrow> (Inl error, w1)
      | Inr sw \<Rightarrow>
          (let w2 = auditSigningRequest userId correlationId ''signMessage'' w1;
               messageStr = (case msg of MsgString s \<Rightarrow> s | MsgBytes bs \<Rightarrow> buffer_hex bs)
           in
           case callDynamicWithRetry remote
                  (''server-wallets/'' @ sw_dynamicServerWalletId sw @ ''/sign'') POST
                  (Some (JObject [(''message'', JString messageStr),
                                  (''encoding'', JString (case msg of MsgString s \<Rightarrow> ''utf8''
                                                           | MsgBytes bs \<Rightarrow> ''hex'')),
                                  (''chain'', JString ''EVM'')])) w2 of
             (Inr result, w3) \<Rightarrow>
               (let w4 = auditSigningComplete userId correlationId w3 in
                case result of
                  Obj r \<Rightarrow> (Inr (signature r), w4)
                | Null \<Rightarrow>
                    (Inl (wrapSigningError (null_read_error ''signature'')),
                     auditSigningFailed userId correlationId (null_read_error ''signature'') w4))
           | (Inl error, w3) \<Rightarrow>
               (Inl (wrapSigningError error), auditSigningFailed userId correlationId error w3)))"

record TransactionRequest =
  tx_to :: string
  tx_data :: string
  tx_value :: "string option"
  tx_chainId :: "int option"

datatype tx_status = submitted | confirmed | failed

record TransactionResult =
  hash :: string
  status :: tx_status

definition executeTransaction ::
  "(nat \<Rightarrow> tx_response json_body fetch_outcome) \<Rightarrow> string \<Rightarrow> TransactionRequest \<Rightarrow> world
     \<Rightarrow> (js_error + TransactionResult) \<times> world" where
  "executeTransaction remote userId tx w =
     (let (correlationId, w1) = randomUUID w in
      case requireReadyWallet userId w1 of
        Inl error \<Rightarrow> (Inl error, w1)
      | Inr sw \<Rightarrow>
          (let w2 = auditSigningRequest userId correlationId ''executeTransaction'' w1 in
           case callDynamicWithRetry remote
                  (''server-wallets/'' @ sw_dynamicServerWalletId sw @ ''/sign-transaction'') POST
                  (Some (JObject
                     [(''transaction'', JObject
                         [(''to'', JString (tx_to tx)),
                          (''data'', JString (tx_data tx)),
                          (''value'', JString (case tx_value tx of None \<Rightarrow> ''0'' | Some v \<Rightarrow> v)),
                          (''chainId'', JNumber (case tx_chainId tx of None \<Rightarrow> 137 | Some c \<Rightarrow> c))]),
                      (''chain'', JString ''EVM''),
                      (''broadcast'', JBool True)])) w2 of
             (Inr result, w3) \<Rightarrow>
               (let w4 = auditSigningComplete userId correlationId w3 in
                case result of
                  Obj r \<Rightarrow>
                    (Inr \<lparr>hash = txr_hash r,
                          status = (if txr_status r = ''confirmed'' then confirmed else submitted)\<rparr>,
                     w4)
                | Null \<Rightarrow>
                    (Inl (wrapSigningError (null_read_error ''hash'')),
                     auditSigningFailed userId correlationId (null_read_error ''hash'') w4))
           | (Inl error, w3) \<Rightarrow>
               (Inl (wrapSigningError error), auditSigningFailed userId correlationId error w3)))"



definition revoke :: "string \<Rightarrow> world \<Rightarrow> (js_error + unit) \<times> world" where
  "revoke userId w =
     (case serverWallet_findUnique userId w of
        None \<Rightarrow> (Inr (), w)
      | Some sw \<Rightarrow>
          (let w1 = serverWallet_update (sw_id sw) (\<lambda>x. x\<lparr>sw_status := FAILED\<rparr>) w;
               w2 = copyProfile_updateMany userId ''ENABLED'' ''PAUSED'' w1;
               w3 = auditLog_create userId SERVER_WALLET_FAILED
                      [(''reason'', DString ''Wallet revoked''),
                       (''walletId'', DString (sw_dynamicServerWalletId sw))] w2
           in (Inr (), w3)))"

section \<open>Observations on traces\<close>

text \<open>Events of the remote client (requests and sleeps), as opposed to audit writes.\<close>

fun is_fetch :: "event \<Rightarrow> bool" where
  "is_fetch (EvFetch r) = True"
| "is_fetch e = False"

fun is_audit :: "event \<Rightarrow> bool" where
  "is_audit (EvAudit a) = True"
| "is_audit e = False"

definition fetches :: "event list \<Rightarrow> nat" where
  "fetches evs = length (filter is_fetch evs)"


text \<open>The correlation id an audit entry carries, if any.\<close>

definition correlation_of :: "audit_entry \<Rightarrow> detail option" where
  "correlation_of a = map_of (au_details a) ''correlationId''"

text \<open>A response with status 429.\<close>

fun is_429 :: "'a fetch_outcome \<Rightarrow> bool" where
  "is_429 (HttpResponse st h t j) = (st = 429)"
| "is_429 (FetchRejects msg) = False"

text \<open>
  The entries the audit helpers write for one signing operation: the one of
  \<open>auditSigningRequest\<close>, and the terminal one, which is that of \<open>auditSigningComplete\<close>
  when the operation returns and that of \<open>auditSigningFailed\<close> when it throws.
\<close>

definition requested_entry :: "string \<Rightarrow> string \<Rightarrow> string \<Rightarrow> audit_entry" where
  "requested_entry userId correlationId operation =
     \<lparr>au_userId = userId, au_action = SIGNING_REQUESTED,
      au_details = [(''correlationId'', DString correlationId),
                    (''operation'', DString operation)]\<rparr>"

definition terminal_entry :: "string \<Rightarrow> string \<Rightarrow> js_error + 'a \<Rightarrow> audit_entry" where
  "terminal_entry userId correlationId outcome =
     (case outcome of
        Inr v \<Rightarrow> \<lparr>au_userId = userId, au_action = SIGNING_COMPLETED,
                   au_details = [(''correlationId'', DString correlationId)]\<rparr>
      | Inl e \<Rightarrow> \<lparr>au_userId = userId, au_action = SIGNING_FAILED,
                   au_details = [(''correlationId'', DString correlationId),
                                 (''error'', DString (error_message e))]\<rparr>)"

section \<open>Concrete worlds and remote behaviours\<close>

text \<open>Inputs on which the theorems below are exercised.\<close>

definition example_config :: config where
  "example_config = \<lparr>DYNAMIC_API_KEY = Some ''live-key'', NODE_ENV = ''production''\<rparr>"

definition empty_world :: world where
  "empty_world =
     \<lparr>w_config = example_config, serverWallets = [], wallets = [], copyProfiles = [],
      auditLogs = [], uuid_source = (\<lambda>n. replicate (Suc n) CHR ''u''), uuids_drawn = 0,
      rows_created = 0, trace = []\<rparr>"

definition alice_wallet :: "wallet_status \<Rightarrow> server_wallet" where
  "alice_wallet st =
     \<lparr>sw_id = 0, sw_userId = ''alice'', sw_dynamicServerWalletId = ''dw-1'',
      sw_address = ''0xA11CE'', sw_status = st\<rparr>"

definition alice_world :: "wallet_status \<Rightarrow> world" where
  "alice_world st =
     empty_world\<lparr>serverWallets := [alice_wallet st], rows_created := 1,
       copyProfiles := [\<lparr>cp_userId = ''alice'', cp_status = ''ENABLED''\<rparr>,
                        \<lparr>cp_userId = ''bob'', cp_status = ''ENABLED''\<rparr>,
                        \<lparr>cp_userId = ''alice'', cp_status = ''DISABLED''\<rparr>]\<rparr>"

definition answers :: "'a \<Rightarrow> nat \<Rightarrow> 'a fetch_outcome" where
  "answers v attempt = HttpResponse 200 None (Inr []) (Inr v)"

definition times_out :: "nat \<Rightarrow> 'a fetch_outcome" where
  "times_out attempt = FetchRejects ''The operation was aborted due to timeout''"

definition rate_limits :: "string option \<Rightarrow> nat \<Rightarrow> 'a fetch_outcome" where
  "rate_limits retry_after attempt = HttpResponse 429 retry_after (Inr []) (Inl [])"

definition server_errors :: "nat \<Rightarrow> 'a fetch_outcome" where
  "server_errors attempt = HttpResponse 500 None (Inr ''down'') (Inl [])"

section \<open>Properties\<close>

subsection \<open>Evaluation on concrete inputs\<close>

lemmas world_defs =
  empty_world_def alice_world_def alice_wallet_def example_config_def
  answers_def times_out_def rate_limits_def server_errors_def

lemmas step_defs =
  emit_def sleep_def randomUUID_def serverWallet_findUnique_def serverWallet_update_def
  serverWallet_create_def wallet_upsert_def copyProfile_updateMany_def auditLog_create_def
  requireReadyWallet_def fetchWalletFromDynamic_def wrapSigningError_def
  auditSigningRequest_def auditSigningComplete_def auditSigningFailed_def
  message_or_def instanceof_Error_def
  callDynamicWithRetry_def retry_loop.simps loop_body_def try_block_def catch_block_def
  create_wallet_body_def the_request_def res_ok_def MAX_RETRIES_def BASE_DELAY_MS_def Let_def

lemma show_nat_500: "show_nat 500 = ''500''"
  by code_simp

subsection \<open>The provider singleton\<close>

lemma get_calls_cached:
  "provider_var m = Some p \<Longrightarrow> get_calls cs m = (replicate (length cs) p, m)"
  by (induction cs) (auto simp: getTradingAuthorityProvider_def)

text \<open>
  Claim C8. Once the module variable is empty, the first call of
  \<open>getTradingAuthorityProvider\<close> builds the provider: the remote-backed class when the
  API key is set and \<open>NODE_ENV\<close> is \<open>production\<close>, the mock otherwise. That call and every
  later one, whatever configuration is in force and whatever handle is passed by then,
  return this one object.
\<close>

theorem provider_singleton:
  "provider_var m = None \<Longrightarrow>
   fst (get_calls ((cfg, prisma) # cs) m) =
     replicate (Suc (length cs))
       \<lparr>prov_class = (if truthy (DYNAMIC_API_KEY cfg) \<and> NODE_ENV cfg = ''production''
                      then DynamicServerWalletProvider else MockDynamicServerWalletProvider),
        prov_prisma = prisma, prov_object = objects_allocated m\<rparr>"
  by (simp add: getTradingAuthorityProvider_def new_provider_def get_calls_cached Let_def)

theorem provider_singleton_witness:
  "provider_var module_loaded = None \<and>
   fst (get_calls [(example_config, 7),
                   (\<lparr>DYNAMIC_API_KEY = None, NODE_ENV = ''test''\<rparr>, 8),
                   (example_config, 7)] module_loaded) =
     replicate 3 \<lparr>prov_class = DynamicServerWalletProvider, prov_prisma = 7, prov_object = 0\<rparr>"
proof -
  have h: "provider_var module_loaded = None" by (simp add: module_loaded_def)
  show ?thesis
    using h provider_singleton [OF h, of example_config 7
        "[(\<lparr>DYNAMIC_API_KEY = None, NODE_ENV = ''test''\<rparr>, 8), (example_config, 7)]"]
    by (simp add: example_config_def truthy_def module_loaded_def numeral_3_eq_3)
qed

subsection \<open>The retry loop\<close>

lemma emit_fields [simp]:
  "trace (emit e w) = trace w @ [e]"
  "w_config (emit e w) = w_config w"
  "serverWallets (emit e w) = serverWallets w"
  "wallets (emit e w) = wallets w"
  "copyProfiles (emit e w) = copyProfiles w"
  "auditLogs (emit e w) = auditLogs w"
  "uuid_source (emit e w) = uuid_source w"
  "uuids_drawn (emit e w) = uuids_drawn w"
  "rows_created (emit e w) = rows_created w"
  by (simp_all add: emit_def)

lemma the_request_emit [simp]: "the_request p m b (emit e w) = the_request p m b w"
  by (simp add: the_request_def)

lemma the_request_sleep [simp]: "the_request p m b (sleep d w) = the_request p m b w"
  by (simp add: sleep_def)

lemma retry_loop_step:
  "attempt \<le> MAX_RETRIES \<Longrightarrow>
   retry_loop remote path method body attempt w =
     (case loop_body path method attempt (remote attempt) of
        Returned v \<Rightarrow> (Inr v, emit (EvFetch (the_request path method body w)) w)
      | Thrown error \<Rightarrow> (Inl error, emit (EvFetch (the_request path method body w)) w)
      | SleepThenContinue delay \<Rightarrow>
          retry_loop remote path method body (Suc attempt)
            (sleep delay (emit (EvFetch (the_request path method body w)) w)))"
  by (subst retry_loop.simps) (simp add: Let_def)

lemma retry_loop_past:
  "\<not> attempt \<le> MAX_RETRIES \<Longrightarrow>
   retry_loop remote path method body attempt w =
     (Inl (JsError ''Exhausted retries for Dynamic API call''), w)"
  by (subst retry_loop.simps) simp



subsection \<open>Transaction results\<close>



subsection \<open>Persistence\<close>

lemma find_map_kept:
  "find P xs = Some r \<Longrightarrow> (\<And>x. P (g x) = P x) \<Longrightarrow> find P (map g xs) = Some (g r)"
  by (induction xs) (auto split: if_splits)

lemma find_append_new:
  "find P xs = None \<Longrightarrow> P r \<Longrightarrow> find P (xs @ [r]) = Some r"
  by (induction xs) (auto split: if_splits)

lemma findUnique_update:
  assumes "serverWallet_findUnique userId w = Some sw" and "\<And>x. sw_userId (f x) = sw_userId x"
  shows "serverWallet_findUnique userId (serverWallet_update (sw_id sw) f w) = Some (f sw)"
proof -
  let ?g = "\<lambda>r. if sw_id r = sw_id sw then f r else r"
  have "find (\<lambda>r. sw_userId r = userId) (map ?g (serverWallets w)) = Some (?g sw)"
    using assms by (intro find_map_kept) (auto simp: serverWallet_findUnique_def)
  then show ?thesis
    by (simp add: serverWallet_findUnique_def serverWallet_update_def)
qed

lemma findUnique_create:
  assumes "serverWallet_findUnique userId w = None"
  shows "serverWallet_findUnique userId (serverWallet_create userId wid addr st w) =
           Some \<lparr>sw_id = rows_created w, sw_userId = userId, sw_dynamicServerWalletId = wid,
                 sw_address = addr, sw_status = st\<rparr>"
  using assms
  by (simp add: serverWallet_findUnique_def serverWallet_create_def find_append_new)

lemma findUnique_frame [simp]:
  "serverWallet_findUnique u (emit e w) = serverWallet_findUnique u w"
  "serverWallet_findUnique u (auditLog_create u' a d w) = serverWallet_findUnique u w"
  "serverWallet_findUnique u (copyProfile_updateMany u' s s' w) = serverWallet_findUnique u w"
  "serverWallet_findUnique u (wallet_upsert u' ty addr w) = serverWallet_findUnique u w"
  "serverWallet_findUnique u (w\<lparr>uuids_drawn := n\<rparr>) = serverWallet_findUnique u w"
  "serverWallet_findUnique u (w\<lparr>trace := t\<rparr>) = serverWallet_findUnique u w"
  by (simp_all add: serverWallet_findUnique_def auditLog_create_def copyProfile_updateMany_def
        wallet_upsert_def emit_def Let_def)

subsection \<open>Revocation\<close>

text \<open>
  Claim C7, as the code has it. With no wallet record \<open>revoke\<close> returns at once and
  leaves the world as it was: no error, no audit entry. With a record, whatever its status,
  it sets the status to \<open>FAILED\<close>, turns each \<open>ENABLED\<close> copy profile of the user to
  \<open>PAUSED\<close> and leaves the other profiles alone, and appends one \<open>SERVER_WALLET_FAILED\<close>
  audit entry.
\<close>

theorem revoke_effect:
  "(serverWallet_findUnique userId w = None \<longrightarrow> revoke userId w = (Inr (), w)) \<and>
   (serverWallet_findUnique userId w = Some sw \<longrightarrow>
      fst (revoke userId w) = Inr () \<and>
      serverWallet_findUnique userId (snd (revoke userId w)) = Some (sw\<lparr>sw_status := FAILED\<rparr>) \<and>
      copyProfiles (snd (revoke userId w)) =
        map (\<lambda>p. if cp_userId p = userId \<and> cp_status p = ''ENABLED''
                  then p\<lparr>cp_status := ''PAUSED''\<rparr> else p) (copyProfiles w) \<and>
      auditLogs (snd (revoke userId w)) = auditLogs w @
        [\<lparr>au_userId = userId, au_action = SERVER_WALLET_FAILED,
          au_details = [(''reason'', DString ''Wallet revoked''),
                        (''walletId'', DString (sw_dynamicServerWalletId sw))]\<rparr>])"
proof (intro conjI impI)
  assume "serverWallet_findUnique userId w = None"
  then show "revoke userId w = (Inr (), w)" by (simp add: revoke_def)
next
  assume sw: "serverWallet_findUnique userId w = Some sw"
  then show "fst (revoke userId w) = Inr ()" by (simp add: revoke_def Let_def)
  from sw findUnique_update [OF sw, of "\<lambda>x. x\<lparr>sw_status := FAILED\<rparr>"]
  show "serverWallet_findUnique userId (snd (revoke userId w)) = Some (sw\<lparr>sw_status := FAILED\<rparr>)"
    by (simp add: revoke_def Let_def)
  from sw show "copyProfiles (snd (revoke userId w)) =
        map (\<lambda>p. if cp_userId p = userId \<and> cp_status p = ''ENABLED''
                  then p\<lparr>cp_status := ''PAUSED''\<rparr> else p) (copyProfiles w)"
    by (simp add: revoke_def Let_def auditLog_create_def copyProfile_updateMany_def
          serverWallet_update_def)
  from sw show "auditLogs (snd (revoke userId w)) = auditLogs w @
        [\<lparr>au_userId = userId, au_action = SERVER_WALLET_FAILED,
          au_details = [(''reason'', DString ''Wallet revoked''),
                        (''walletId'', DString (sw_dynamicServerWalletId sw))]\<rparr>]"
    by (simp add: revoke_def Let_def auditLog_create_def copyProfile_updateMany_def
          serverWallet_update_def)
qed

text \<open>
  On a record that is already \<open>FAILED\<close> the call is not a no-op: the audit entry is
  written again and an enabled copy profile is paused.
\<close>

theorem revoke_failed_not_noop:
  "serverWallet_findUnique ''alice'' (alice_world FAILED) = Some (alice_wallet FAILED) \<and>
   auditLogs (alice_world FAILED) = [] \<and>
   auditLogs (snd (revoke ''alice'' (alice_world FAILED))) =
     [\<lparr>au_userId = ''alice'', au_action = SERVER_WALLET_FAILED,
       au_details = [(''reason'', DString ''Wallet revoked''), (''walletId'', DString ''dw-1'')]\<rparr>] \<and>
   copyProfiles (snd (revoke ''alice'' (alice_world FAILED))) \<noteq> copyProfiles (alice_world FAILED) \<and>
   revoke ''alice'' (alice_world FAILED) \<noteq> (Inr (), alice_world FAILED)"
  by (simp add: revoke_def world_defs step_defs prod_eq_iff)

theorem revoke_effect_witness:
  "serverWallet_findUnique ''alice'' (alice_world READY) = Some (alice_wallet READY) \<and>
   serverWallet_findUnique ''carol'' (alice_world READY) = None \<and>
   revoke ''carol'' (alice_world READY) = (Inr (), alice_world READY) \<and>
   serverWallet_findUnique ''alice'' (snd (revoke ''alice'' (alice_world READY)))
     = Some (alice_wallet FAILED) \<and>
   copyProfiles (snd (revoke ''alice'' (alice_world READY))) =
     [\<lparr>cp_userId = ''alice'', cp_status = ''PAUSED''\<rparr>,
      \<lparr>cp_userId = ''bob'', cp_status = ''ENABLED''\<rparr>,
      \<lparr>cp_userId = ''alice'', cp_status = ''DISABLED''\<rparr>]"
proof -
  have a: "serverWallet_findUnique ''alice'' (alice_world READY) = Some (alice_wallet READY)"
    by (simp add: world_defs step_defs)
  have c: "serverWallet_findUnique ''carol'' (alice_world READY) = None"
    by (simp add: world_defs step_defs)
  from revoke_effect [of "''carol''" "alice_world READY"] c
  have 1: "revoke ''carol'' (alice_world READY) = (Inr (), alice_world READY)" by blast
  from revoke_effect [of "''alice''" "alice_world READY" "alice_wallet READY"] a
  have 2: "serverWallet_findUnique ''alice'' (snd (revoke ''alice'' (alice_world READY)))
             = Some ((alice_wallet READY)\<lparr>sw_status := FAILED\<rparr>)"
    and 3: "copyProfiles (snd (revoke ''alice'' (alice_world READY))) =
        map (\<lambda>p. if cp_userId p = ''alice'' \<and> cp_status p = ''ENABLED''
                  then p\<lparr>cp_status := ''PAUSED''\<rparr> else p) (copyProfiles (alice_world READY))"
    by blast+
  from a c 1 2 3 show ?thesis
    by (simp add: alice_wallet_def alice_world_def)
qed

subsection \<open>What a remote call leaves behind\<close>

lemma retry_loop_frame:
  "\<exists>evs. snd (retry_loop remote p m b k w) = w\<lparr>trace := trace w @ evs\<rparr>
         \<and> \<not> list_ex is_audit evs
         \<and> (k \<le> MAX_RETRIES \<longrightarrow> evs \<noteq> [] \<and> hd evs = EvFetch (the_request p m b w))
         \<and> fetches evs \<le> Suc MAX_RETRIES - k"
proof (induction remote p m b k w rule: retry_loop.induct)
  case (1 remote path meth body attempt w)
  let ?rq = "EvFetch (the_request path meth body w)"
  show ?case
  proof (cases "attempt \<le> MAX_RETRIES")
    case False
    then show ?thesis
      by (auto simp: retry_loop_past fetches_def intro!: exI [of _ "[]"])
  next
    case le: True
    show ?thesis
    proof (cases "loop_body path meth attempt (remote attempt)")
      case (Returned v)
      with le show ?thesis
        by (auto simp: retry_loop_step emit_def fetches_def intro!: exI [of _ "[?rq]"])
    next
      case (Thrown e)
      with le show ?thesis
        by (auto simp: retry_loop_step emit_def fetches_def intro!: exI [of _ "[?rq]"])
    next
      case (SleepThenContinue d)
      let ?w2 = "sleep d (emit ?rq w)"
      from "1.IH" [OF le refl SleepThenContinue]
      obtain evs where evs:
        "snd (retry_loop remote path meth body (Suc attempt) ?w2) = ?w2\<lparr>trace := trace ?w2 @ evs\<rparr>"
        "\<not> list_ex is_audit evs" "fetches evs \<le> Suc MAX_RETRIES - Suc attempt"
        by blast
      have eq: "retry_loop remote path meth body attempt w =
                  retry_loop remote path meth body (Suc attempt) ?w2"
        using le SleepThenContinue by (simp add: retry_loop_step)
      show ?thesis
        unfolding eq using evs le
        by (intro exI [of _ "?rq # EvSleep d # evs"]) (auto simp: sleep_def emit_def fetches_def)
    qed
  qed
qed

lemma call_frame:
  assumes "callDynamicWithRetry remote p m b w = (r, w1)"
  shows "\<exists>evs. w1 = w\<lparr>trace := trace w @ evs\<rparr> \<and> \<not> list_ex is_audit evs \<and> evs \<noteq> []
           \<and> hd evs = EvFetch (the_request p m b w) \<and> fetches evs \<le> Suc MAX_RETRIES"
  using retry_loop_frame [of remote p m b 0 w] assms
  by (auto simp: callDynamicWithRetry_def)

lemma call_fields:
  assumes "callDynamicWithRetry remote p m b w = (r, w1)"
  shows "serverWallets w1 = serverWallets w" "wallets w1 = wallets w"
    "copyProfiles w1 = copyProfiles w" "auditLogs w1 = auditLogs w"
    "uuid_source w1 = uuid_source w" "uuids_drawn w1 = uuids_drawn w"
    "rows_created w1 = rows_created w" "w_config w1 = w_config w"
    "serverWallet_findUnique u w1 = serverWallet_findUnique u w"
  using call_frame [OF assms] by (auto simp: serverWallet_findUnique_def)

lemma auditLog_create_logs [simp]:
  "auditLogs (auditLog_create u a d w) = auditLogs w @ [\<lparr>au_userId = u, au_action = a, au_details = d\<rparr>]"
  by (simp add: auditLog_create_def Let_def)

lemma auditLogs_frame [simp]:
  "auditLogs (serverWallet_update i f w) = auditLogs w"
  "auditLogs (serverWallet_create u wid addr st w) = auditLogs w"
  "auditLogs (wallet_upsert u ty addr w) = auditLogs w"
  "auditLogs (copyProfile_updateMany u s s' w) = auditLogs w"
  by (simp_all add: serverWallet_update_def serverWallet_create_def wallet_upsert_def
        copyProfile_updateMany_def)


lemma createServerWallet_failed:
  assumes sw: "serverWallet_findUnique userId w = sw"
    and go: "\<And>r. sw = Some r \<Longrightarrow> sw_status r \<noteq> READY \<or> isRotation"
    and call: "callDynamicWithRetry remote ''server-wallets'' POST
                 (Some (create_wallet_body userId)) w = (Inl error, w1)"
  shows "fst (createServerWallet remote userId isRotation w) =
           Inl (AppError SERVER_WALLET_CREATION_FAILED
                  (''Failed to create server wallet: '' @ error_message error) 503)"
    and "auditLogs (snd (createServerWallet remote userId isRotation w)) = auditLogs w @
           [\<lparr>au_userId = userId, au_action = SERVER_WALLET_FAILED,
             au_details = [(''error'', DString (error_message error))]\<rparr>]"
    and "serverWallet_findUnique userId (snd (createServerWallet remote userId isRotation w)) =
           Some (case sw of
                   Some r \<Rightarrow> r\<lparr>sw_status := FAILED\<rparr>
                 | None \<Rightarrow> \<lparr>sw_id = rows_created w, sw_userId = userId,
                             sw_dynamicServerWalletId =
                               ''pending-'' @ uuid_source w (uuids_drawn w),
                             sw_address = zero_address, sw_status = FAILED\<rparr>)"
proof -
  note f = call_fields [OF call]
  show "fst (createServerWallet remote userId isRotation w) =
           Inl (AppError SERVER_WALLET_CREATION_FAILED
                  (''Failed to create server wallet: '' @ error_message error) 503)"
    using sw go call
    by (cases sw) (auto simp: createServerWallet_def Let_def message_or_def instanceof_Error_def
                        split: prod.splits)
  show "auditLogs (snd (createServerWallet remote userId isRotation w)) = auditLogs w @
           [\<lparr>au_userId = userId, au_action = SERVER_WALLET_FAILED,
             au_details = [(''error'', DString (error_message error))]\<rparr>]"
    using sw go call f(4)
    by (cases sw) (auto simp: createServerWallet_def Let_def message_or_def instanceof_Error_def
                          randomUUID_def split: prod.splits)
  show "serverWallet_findUnique userId (snd (createServerWallet remote userId isRotation w)) =
           Some (case sw of
                   Some r \<Rightarrow> r\<lparr>sw_status := FAILED\<rparr>
                 | None \<Rightarrow> \<lparr>sw_id = rows_created w, sw_userId = userId,
                             sw_dynamicServerWalletId =
                               ''pending-'' @ uuid_source w (uuids_drawn w),
                             sw_address = zero_address, sw_status = FAILED\<rparr>)"
  proof (cases sw)
    case None
    with sw f(9) [of userId]
    have "serverWallet_findUnique userId (w1\<lparr>uuids_drawn := Suc (uuids_drawn w1)\<rparr>) = None"
      by simp
    from findUnique_create [OF this] None sw call f(5,6,7) show ?thesis
      by (simp add: createServerWallet_def Let_def randomUUID_def)
  next
    case (Some r)
    with sw f(9) [of userId] have "serverWallet_findUnique userId w1 = Some r" by simp
    from findUnique_update [OF this, of "\<lambda>x. x\<lparr>sw_status := FAILED\<rparr>"]
      Some sw call go [OF Some] show ?thesis
      by (auto simp: createServerWallet_def Let_def)
  qed
qed

subsection \<open>Rotation\<close>



subsection \<open>Failure of wallet creation\<close>

text \<open>
  Claim C4. \<open>getAddress\<close> reaches wallet creation when the user has no record or a
  \<open>FAILED\<close> one. When the remote creation call then fails, retries included, with some
  error, \<open>getAddress\<close> fails with \<open>SERVER_WALLET_CREATION_FAILED\<close> whose message carries
  the message of that error; the record of the user has status \<open>FAILED\<close> afterwards (a new
  placeholder with the zero address when there was none, the old record with its address
  otherwise); and the audit log gains exactly one entry, \<open>SERVER_WALLET_FAILED\<close>.
\<close>

theorem getAddress_creation_failure:
  "(serverWallet_findUnique userId w = None \<and>
    callDynamicWithRetry create ''server-wallets'' POST (Some (create_wallet_body userId)) w
      = (Inl error, w1) \<longrightarrow>
      fst (getAddress poll create userId w) =
        Inl (AppError SERVER_WALLET_CREATION_FAILED
               (''Failed to create server wallet: '' @ error_message error) 503) \<and>
      serverWallet_findUnique userId (snd (getAddress poll create userId w)) =
        Some \<lparr>sw_id = rows_created w, sw_userId = userId,
              sw_dynamicServerWalletId = ''pending-'' @ uuid_source w (uuids_drawn w),
              sw_address = zero_address, sw_status = FAILED\<rparr> \<and>
      auditLogs (snd (getAddress poll create userId w)) = auditLogs w @
        [\<lparr>au_userId = userId, au_action = SERVER_WALLET_FAILED,
          au_details = [(''error'', DString (error_message error))]\<rparr>]) \<and>
   (serverWallet_findUnique userId w = Some sw \<and> sw_status sw = FAILED \<and>
    callDynamicWithRetry create ''server-wallets'' POST (Some (create_wallet_body userId)) w
      = (Inl error, w1) \<longrightarrow>
      fst (getAddress poll create userId w) =
        Inl (AppError SERVER_WALLET_CREATION_FAILED
               (''Failed to create server wallet: '' @ error_message error) 503) \<and>
      serverWallet_findUnique userId (snd (getAddress poll create userId w)) = Some sw \<and>
      auditLogs (snd (getAddress poll create userId w)) = auditLogs w @
        [\<lparr>au_userId = userId, au_action = SERVER_WALLET_FAILED,
          au_details = [(''error'', DString (error_message error))]\<rparr>])"
proof (intro conjI impI)
  assume a: "serverWallet_findUnique userId w = None \<and>
    callDynamicWithRetry create ''server-wallets'' POST (Some (create_wallet_body userId)) w
      = (Inl error, w1)"
  then have none: "serverWallet_findUnique userId w = None" and
    call: "callDynamicWithRetry create ''server-wallets'' POST (Some (create_wallet_body userId)) w
      = (Inl error, w1)" by simp_all
  have g: "getAddress poll create userId w = createServerWallet create userId False w"
    using none by (simp add: getAddress_def)
  have go: "\<And>r. None = Some r \<Longrightarrow> sw_status r \<noteq> READY \<or> False" by simp
  note c = createServerWallet_failed [OF none go call]
  show "fst (getAddress poll create userId w) =
        Inl (AppError SERVER_WALLET_CREATION_FAILED
               (''Failed to create server wallet: '' @ error_message error) 503)"
    unfolding g by (rule c(1))
  show "serverWallet_findUnique userId (snd (getAddress poll create userId w)) =
        Some \<lparr>sw_id = rows_created w, sw_userId = userId,
              sw_dynamicServerWalletId = ''pending-'' @ uuid_source w (uuids_drawn w),
              sw_address = zero_address, sw_status = FAILED\<rparr>"
    unfolding g using c(3) by simp
  show "auditLogs (snd (getAddress poll create userId w)) = auditLogs w @
        [\<lparr>au_userId = userId, au_action = SERVER_WALLET_FAILED,
          au_details = [(''error'', DString (error_message error))]\<rparr>]"
    unfolding g by (rule c(2))
next
  assume a: "serverWallet_findUnique userId w = Some sw \<and> sw_status sw = FAILED \<and>
    callDynamicWithRetry create ''server-wallets'' POST (Some (create_wallet_body userId)) w
      = (Inl error, w1)"
  then have some: "serverWallet_findUnique userId w = Some sw" and st: "sw_status sw = FAILED" and
    call: "callDynamicWithRetry create ''server-wallets'' POST (Some (create_wallet_body userId)) w
      = (Inl error, w1)" by simp_all
  have g: "getAddress poll create userId w = createServerWallet create userId False w"
    using some st by (simp add: getAddress_def)
  have go: "\<And>r. Some sw = Some r \<Longrightarrow> sw_status r \<noteq> READY \<or> False" using st by simp
  note c = createServerWallet_failed [OF some go call]
  have same: "sw\<lparr>sw_status := FAILED\<rparr> = sw" using st by simp
  show "fst (getAddress poll create userId w) =
        Inl (AppError SERVER_WALLET_CREATION_FAILED
               (''Failed to create server wallet: '' @ error_message error) 503)"
    unfolding g by (rule c(1))
  show "serverWallet_findUnique userId (snd (getAddress poll create userId w)) = Some sw"
    unfolding g using c(3) same by simp
  show "auditLogs (snd (getAddress poll create userId w)) = auditLogs w @
        [\<lparr>au_userId = userId, au_action = SERVER_WALLET_FAILED,
          au_details = [(''error'', DString (error_message error))]\<rparr>]"
    unfolding g by (rule c(2))
qed

theorem getAddress_creation_failure_witness:
  "serverWallet_findUnique ''alice'' empty_world = None \<and>
   fst (callDynamicWithRetry (times_out :: nat \<Rightarrow> DynamicCreateWalletResponse fetch_outcome)
          ''server-wallets'' POST (Some (create_wallet_body ''alice'')) empty_world)
     = Inl (JsError ''The operation was aborted due to timeout'') \<and>
   fetches (trace (snd (callDynamicWithRetry
          (times_out :: nat \<Rightarrow> DynamicCreateWalletResponse fetch_outcome)
          ''server-wallets'' POST (Some (create_wallet_body ''alice'')) empty_world))) = 4 \<and>
   fst (getAddress times_out times_out ''alice'' empty_world) =
     Inl (AppError SERVER_WALLET_CREATION_FAILED
            ''Failed to create server wallet: The operation was aborted due to timeout'' 503) \<and>
   serverWallet_findUnique ''alice'' (snd (getAddress times_out times_out ''alice'' empty_world)) =
     Some \<lparr>sw_id = 0, sw_userId = ''alice'', sw_dynamicServerWalletId = ''pending-u'',
           sw_address = ''0x0000000000000000000000000000000000000000'', sw_status = FAILED\<rparr> \<and>
   auditLogs (snd (getAddress times_out times_out ''alice'' empty_world)) =
     [\<lparr>au_userId = ''alice'', au_action = SERVER_WALLET_FAILED,
       au_details = [(''error'', DString ''The operation was aborted due to timeout'')]\<rparr>] \<and>
   serverWallet_findUnique ''alice'' (alice_world FAILED) = Some (alice_wallet FAILED) \<and>
   serverWallet_findUnique ''alice''
       (snd (getAddress times_out times_out ''alice'' (alice_world FAILED))) =
     Some (alice_wallet FAILED)"
proof -
  let ?t = "times_out :: nat \<Rightarrow> DynamicCreateWalletResponse fetch_outcome"
  let ?e = "JsError ''The operation was aborted due to timeout''"
  let ?call = "\<lambda>w. callDynamicWithRetry ?t ''server-wallets'' POST
                 (Some (create_wallet_body ''alice'')) w"
  have none: "serverWallet_findUnique ''alice'' empty_world = None"
    by (simp add: world_defs step_defs)
  have some: "serverWallet_findUnique ''alice'' (alice_world FAILED) = Some (alice_wallet FAILED)"
    by (simp add: world_defs step_defs)
  have st: "sw_status (alice_wallet FAILED) = FAILED" by (simp add: alice_wallet_def)
  have r0: "fst (?call empty_world) = Inl ?e" by (simp add: world_defs step_defs)
  have n0: "fetches (trace (snd (?call empty_world))) = 4"
    by (simp add: world_defs step_defs fetches_def)
  have r1: "fst (?call (alice_world FAILED)) = Inl ?e" by (simp add: world_defs step_defs)
  from r0 have c0: "?call empty_world = (Inl ?e, snd (?call empty_world))"
    by (simp add: prod_eq_iff)
  from r1 have c1: "?call (alice_world FAILED) = (Inl ?e, snd (?call (alice_world FAILED)))"
    by (simp add: prod_eq_iff)
  have e0: "rows_created empty_world = 0" "uuid_source empty_world (uuids_drawn empty_world) = ''u''"
    "auditLogs empty_world = []"
    by (simp_all add: empty_world_def)
  from getAddress_creation_failure [of "''alice''" empty_world ?t ?e "snd (?call empty_world)"
         times_out] none c0
  have 1: "fst (getAddress times_out ?t ''alice'' empty_world) =
        Inl (AppError SERVER_WALLET_CREATION_FAILED
               (''Failed to create server wallet: '' @ error_message ?e) 503)"
    and 2: "serverWallet_findUnique ''alice'' (snd (getAddress times_out ?t ''alice'' empty_world)) =
        Some \<lparr>sw_id = rows_created empty_world, sw_userId = ''alice'',
              sw_dynamicServerWalletId =
                ''pending-'' @ uuid_source empty_world (uuids_drawn empty_world),
              sw_address = zero_address, sw_status = FAILED\<rparr>"
    and 3: "auditLogs (snd (getAddress times_out ?t ''alice'' empty_world)) = auditLogs empty_world @
        [\<lparr>au_userId = ''alice'', au_action = SERVER_WALLET_FAILED,
          au_details = [(''error'', DString (error_message ?e))]\<rparr>]"
    by blast+
  from getAddress_creation_failure [of "''alice''" "alice_world FAILED" ?t ?e
         "snd (?call (alice_world FAILED))" times_out "alice_wallet FAILED"] some st c1
  have 4: "serverWallet_findUnique ''alice''
       (snd (getAddress times_out ?t ''alice'' (alice_world FAILED))) = Some (alice_wallet FAILED)"
    by blast
  from none some r0 n0 1 2 3 4 e0 show ?thesis
    by (simp add: zero_address_def)
qed

subsection \<open>Address resolution\<close>




subsection \<open>Signing operations\<close>

lemma wrapSigningError_message [simp]:
  "error_message (wrapSigningError e) = error_message e"
  by (cases e) (simp_all add: wrapSigningError_def message_or_def instanceof_Error_def)

lemma requireReadyWallet_drawn [simp]:
  "requireReadyWallet u (w\<lparr>uuids_drawn := n\<rparr>) = requireReadyWallet u w"
  by (simp add: requireReadyWallet_def)

lemma requireReadyWallet_ready:
  "serverWallet_findUnique u w = Some sw \<Longrightarrow> sw_status sw = READY \<Longrightarrow>
   requireReadyWallet u w = Inr sw"
  by (simp add: requireReadyWallet_def)

lemma requireReadyWallet_not_ready:
  "(\<And>sw. serverWallet_findUnique u w = Some sw \<Longrightarrow> sw_status sw \<noteq> READY) \<Longrightarrow>
   requireReadyWallet u w =
     Inl (AppError SERVER_WALLET_NOT_READY ''Server wallet is not ready for signing'' 503)"
  by (cases "serverWallet_findUnique u w") (simp_all add: requireReadyWallet_def)

lemma not_ready_runs:
  assumes "\<And>sw. serverWallet_findUnique userId w = Some sw \<Longrightarrow> sw_status sw \<noteq> READY"
  shows "signTypedData remote userId td w =
           (Inl (AppError SERVER_WALLET_NOT_READY ''Server wallet is not ready for signing'' 503),
            w\<lparr>uuids_drawn := Suc (uuids_drawn w)\<rparr>)"
    and "signMessage remote userId msg w =
           (Inl (AppError SERVER_WALLET_NOT_READY ''Server wallet is not ready for signing'' 503),
            w\<lparr>uuids_drawn := Suc (uuids_drawn w)\<rparr>)"
    and "executeTransaction remote' userId tx w =
           (Inl (AppError SERVER_WALLET_NOT_READY ''Server wallet is not ready for signing'' 503),
            w\<lparr>uuids_drawn := Suc (uuids_drawn w)\<rparr>)"
  using requireReadyWallet_not_ready [of userId w] assms
  by (simp_all add: signTypedData_def signMessage_def executeTransaction_def randomUUID_def)




lemma envelope_failed:
  assumes call: "callDynamicWithRetry remote path POST body
                   (auditSigningRequest userId cid opn w1) = (r, w3)"
    and run: "run = (case r of
          Inr jv \<Rightarrow>
            (case jv of
               Obj v \<Rightarrow> (Inr (f v), auditSigningComplete userId cid w3)
             | Null \<Rightarrow>
                 (Inl (wrapSigningError (null_read_error prop)),
                  auditSigningFailed userId cid (null_read_error prop)
                    (auditSigningComplete userId cid w3)))
        | Inl e \<Rightarrow> (Inl (wrapSigningError e), auditSigningFailed userId cid e w3))"
    and err: "fst run = Inl e"
  shows "last (auditLogs (snd (run))) =
        \<lparr>au_userId = userId, au_action = SIGNING_FAILED,
         au_details = [(''correlationId'', DString cid),
                       (''error'', DString (error_message e))]\<rparr> \<and>
      last (trace (snd (run))) = EvAudit
        \<lparr>au_userId = userId, au_action = SIGNING_FAILED,
         au_details = [(''correlationId'', DString cid),
                       (''error'', DString (error_message e))]\<rparr>"
  using err unfolding run
  by (auto simp: auditSigningRequest_def auditSigningComplete_def auditSigningFailed_def
          auditLog_create_def emit_def Let_def message_or_def instanceof_Error_def
          requested_entry_def terminal_entry_def correlation_of_def
           split: sum.splits json_body.splits)

text \<open>Each operation on a \<open>READY\<close> record has that shape.\<close>

lemma signTypedData_ready:
  assumes "serverWallet_findUnique userId w = Some sw" "sw_status sw = READY"
    and "callDynamicWithRetry remote
           (''server-wallets/'' @ sw_dynamicServerWalletId sw @ ''/sign-typed-data'') POST
           (Some (JObject [(''typedData'', JStringify (typed_data_json td)),
                           (''chain'', JString ''EVM'')]))
           (auditSigningRequest userId (uuid_source w (uuids_drawn w)) ''signTypedData''
              (w\<lparr>uuids_drawn := Suc (uuids_drawn w)\<rparr>)) = (r, w3)"
  shows "signTypedData remote userId td w =
       (case r of
          Inr jv \<Rightarrow>
            (case jv of
               Obj v \<Rightarrow> (Inr (signature v), auditSigningComplete userId (uuid_source w (uuids_drawn w)) w3)
             | Null \<Rightarrow>
                 (Inl (wrapSigningError (null_read_error ''signature'')),
                  auditSigningFailed userId (uuid_source w (uuids_drawn w)) (null_read_error ''signature'')
                    (auditSigningComplete userId (uuid_source w (uuids_drawn w)) w3)))
        | Inl e \<Rightarrow> (Inl (wrapSigningError e), auditSigningFailed userId (uuid_source w (uuids_drawn w)) e w3))"
  using requireReadyWallet_ready [OF assms(1,2)] assms(3)
  by (auto simp: signTypedData_def randomUUID_def Let_def split: sum.splits json_body.splits)

lemma signMessage_ready:
  assumes "serverWallet_findUnique userId w = Some sw" "sw_status sw = READY"
    and "callDynamicWithRetry remote
           (''server-wallets/'' @ sw_dynamicServerWalletId sw @ ''/sign'') POST
           (Some (JObject [(''message'', JString (case msg of MsgString s \<Rightarrow> s
                                                   | MsgBytes bs \<Rightarrow> buffer_hex bs)),
                           (''encoding'', JString (case msg of MsgString s \<Rightarrow> ''utf8''
                                                    | MsgBytes bs \<Rightarrow> ''hex'')),
                           (''chain'', JString ''EVM'')]))
           (auditSigningRequest userId (uuid_source w (uuids_drawn w)) ''signMessage''
              (w\<lparr>uuids_drawn := Suc (uuids_drawn w)\<rparr>)) = (r, w3)"
  shows "signMessage remote userId msg w =
       (case r of
          Inr jv \<Rightarrow>
            (case jv of
               Obj v \<Rightarrow> (Inr (signature v), auditSigningComplete userId (uuid_source w (uuids_drawn w)) w3)
             | Null \<Rightarrow>
                 (Inl (wrapSigningError (null_read_error ''signature'')),
                  auditSigningFailed userId (uuid_source w (uuids_drawn w)) (null_read_error ''signature'')
                    (auditSigningComplete userId (uuid_source w (uuids_drawn w)) w3)))
        | Inl e \<Rightarrow> (Inl (wrapSigningError e), auditSigningFailed userId (uuid_source w (uuids_drawn w)) e w3))"
  using requireReadyWallet_ready [OF assms(1,2)] assms(3)
  by (auto simp: signMessage_def randomUUID_def Let_def split: sum.splits json_body.splits)

lemma executeTransaction_ready:
  assumes "serverWallet_findUnique userId w = Some sw" "sw_status sw = READY"
    and "callDynamicWithRetry remote_tx
           (''server-wallets/'' @ sw_dynamicServerWalletId sw @ ''/sign-transaction'') POST
           (Some (JObject
              [(''transaction'', JObject
                  [(''to'', JString (tx_to tx)),
                   (''data'', JString (tx_data tx)),
                   (''value'', JString (case tx_value tx of None \<Rightarrow> ''0'' | Some v \<Rightarrow> v)),
                   (''chainId'', JNumber (case tx_chainId tx of None \<Rightarrow> 137 | Some c \<Rightarrow> c))]),
               (''chain'', JString ''EVM''),
               (''broadcast'', JBool True)]))
           (auditSigningRequest userId (uuid_source w (uuids_drawn w)) ''executeTransaction''
              (w\<lparr>uuids_drawn := Suc (uuids_drawn w)\<rparr>)) = (r, w3)"
  shows "executeTransaction remote_tx userId tx w =
       (case r of
          Inr jv \<Rightarrow>
            (case jv of
               Obj v \<Rightarrow> (Inr ((\<lambda>v. \<lparr>hash = txr_hash v,
                 status = (if txr_status v = ''confirmed'' then confirmed else submitted)\<rparr>) v), auditSigningComplete userId (uuid_source w (uuids_drawn w)) w3)
             | Null \<Rightarrow>
                 (Inl (wrapSigningError (null_read_error ''hash'')),
                  auditSigningFailed userId (uuid_source w (uuids_drawn w)) (null_read_error ''hash'')
                    (auditSigningComplete userId (uuid_source w (uuids_drawn w)) w3)))
        | Inl e \<Rightarrow> (Inl (wrapSigningError e), auditSigningFailed userId (uuid_source w (uuids_drawn w)) e w3))"
  using requireReadyWallet_ready [OF assms(1,2)] assms(3)
  by (auto simp: executeTransaction_def randomUUID_def Let_def split: sum.splits json_body.splits)




text \<open>
  Claim C3, as the code has it. The readiness check comes before the first audit write and
  outside the \<open>try\<close> block: when the record is absent or not \<open>READY\<close>, each operation
  fails with \<open>SERVER_WALLET_NOT_READY\<close> and changes nothing but the count of identifiers
  drawn, so it writes no audit entry. Past that check, an operation that fails has written
  \<open>SIGNING_FAILED\<close>, with its correlation id and the message of the error, as the last
  audit entry and the last event before the error reaches the caller.
\<close>

theorem signing_failure_audit:
  "((\<forall>r. serverWallet_findUnique userId w = Some r \<longrightarrow> sw_status r \<noteq> READY) \<longrightarrow>
      signTypedData remote userId td w =
        (Inl (AppError SERVER_WALLET_NOT_READY ''Server wallet is not ready for signing'' 503),
         w\<lparr>uuids_drawn := Suc (uuids_drawn w)\<rparr>) \<and>
      signMessage remote userId msg w =
        (Inl (AppError SERVER_WALLET_NOT_READY ''Server wallet is not ready for signing'' 503),
         w\<lparr>uuids_drawn := Suc (uuids_drawn w)\<rparr>) \<and>
      executeTransaction remote_tx userId tx w =
        (Inl (AppError SERVER_WALLET_NOT_READY ''Server wallet is not ready for signing'' 503),
         w\<lparr>uuids_drawn := Suc (uuids_drawn w)\<rparr>)) \<and>
   (serverWallet_findUnique userId w = Some sw \<and> sw_status sw = READY \<and>
    fst (signTypedData remote userId td w) = Inl e \<longrightarrow>
      last (auditLogs (snd (signTypedData remote userId td w))) =
        \<lparr>au_userId = userId, au_action = SIGNING_FAILED,
         au_details = [(''correlationId'', DString (uuid_source w (uuids_drawn w))),
                       (''error'', DString (error_message e))]\<rparr> \<and>
      last (trace (snd (signTypedData remote userId td w))) = EvAudit
        \<lparr>au_userId = userId, au_action = SIGNING_FAILED,
         au_details = [(''correlationId'', DString (uuid_source w (uuids_drawn w))),
                       (''error'', DString (error_message e))]\<rparr>) \<and>
   (serverWallet_findUnique userId w = Some sw \<and> sw_status sw = READY \<and>
    fst (signMessage remote userId msg w) = Inl e \<longrightarrow>
      last (auditLogs (snd (signMessage remote userId msg w))) =
        \<lparr>au_userId = userId, au_action = SIGNING_FAILED,
         au_details = [(''correlationId'', DString (uuid_source w (uuids_drawn w))),
                       (''error'', DString (error_message e))]\<rparr> \<and>
      last (trace (snd (signMessage remote userId msg w))) = EvAudit
        \<lparr>au_userId = userId, au_action = SIGNING_FAILED,
         au_details = [(''correlationId'', DString (uuid_source w (uuids_drawn w))),
                       (''error'', DString (error_message e))]\<rparr>) \<and>
   (serverWallet_findUnique userId w = Some sw \<and> sw_status sw = READY \<and>
    fst (executeTransaction remote_tx userId tx w) = Inl e \<longrightarrow>
      last (auditLogs (snd (executeTransaction remote_tx userId tx w))) =
        \<lparr>au_userId = userId, au_action = SIGNING_FAILED,
         au_details = [(''correlationId'', DString (uuid_source w (uuids_drawn w))),
                       (''error'', DString (error_message e))]\<rparr> \<and>
      last (trace (snd (executeTransaction remote_tx userId tx w))) = EvAudit
        \<lparr>au_userId = userId, au_action = SIGNING_FAILED,
         au_details = [(''correlationId'', DString (uuid_source w (uuids_drawn w))),
                       (''error'', DString (error_message e))]\<rparr>)"
proof -
  have nr: "(\<forall>r. serverWallet_findUnique userId w = Some r \<longrightarrow> sw_status r \<noteq> READY) \<longrightarrow>
      signTypedData remote userId td w =
        (Inl (AppError SERVER_WALLET_NOT_READY ''Server wallet is not ready for signing'' 503),
         w\<lparr>uuids_drawn := Suc (uuids_drawn w)\<rparr>) \<and>
      signMessage remote userId msg w =
        (Inl (AppError SERVER_WALLET_NOT_READY ''Server wallet is not ready for signing'' 503),
         w\<lparr>uuids_drawn := Suc (uuids_drawn w)\<rparr>) \<and>
      executeTransaction remote_tx userId tx w =
        (Inl (AppError SERVER_WALLET_NOT_READY ''Server wallet is not ready for signing'' 503),
         w\<lparr>uuids_drawn := Suc (uuids_drawn w)\<rparr>)"
  proof
    assume "\<forall>r. serverWallet_findUnique userId w = Some r \<longrightarrow> sw_status r \<noteq> READY"
    then have nr': "\<And>r. serverWallet_findUnique userId w = Some r \<Longrightarrow> sw_status r \<noteq> READY"
      by blast
    show "signTypedData remote userId td w =
        (Inl (AppError SERVER_WALLET_NOT_READY ''Server wallet is not ready for signing'' 503),
         w\<lparr>uuids_drawn := Suc (uuids_drawn w)\<rparr>) \<and>
      signMessage remote userId msg w =
        (Inl (AppError SERVER_WALLET_NOT_READY ''Server wallet is not ready for signing'' 503),
         w\<lparr>uuids_drawn := Suc (uuids_drawn w)\<rparr>) \<and>
      executeTransaction remote_tx userId tx w =
        (Inl (AppError SERVER_WALLET_NOT_READY ''Server wallet is not ready for signing'' 503),
         w\<lparr>uuids_drawn := Suc (uuids_drawn w)\<rparr>)"
      by (rule conjI [OF not_ready_runs(1) [OF nr'] conjI [OF not_ready_runs(2) [OF nr']
            not_ready_runs(3) [OF nr']]])
  qed
  have r1: "serverWallet_findUnique userId w = Some sw \<and> sw_status sw = READY \<and>
    fst (signTypedData remote userId td w) = Inl e \<longrightarrow>
      last (auditLogs (snd (signTypedData remote userId td w))) =
        \<lparr>au_userId = userId, au_action = SIGNING_FAILED,
         au_details = [(''correlationId'', DString (uuid_source w (uuids_drawn w))),
                       (''error'', DString (error_message e))]\<rparr> \<and>
      last (trace (snd (signTypedData remote userId td w))) = EvAudit
        \<lparr>au_userId = userId, au_action = SIGNING_FAILED,
         au_details = [(''correlationId'', DString (uuid_source w (uuids_drawn w))),
                       (''error'', DString (error_message e))]\<rparr>"
  proof
    assume a: "serverWallet_findUnique userId w = Some sw \<and> sw_status sw = READY \<and>
      fst (signTypedData remote userId td w) = Inl e"
    then have f: "serverWallet_findUnique userId w = Some sw" and s: "sw_status sw = READY"
      and e: "fst (signTypedData remote userId td w) = Inl e" by simp_all
    obtain r0 w0 where c: "callDynamicWithRetry remote
           (''server-wallets/'' @ sw_dynamicServerWalletId sw @ ''/sign-typed-data'') POST
           (Some (JObject [(''typedData'', JStringify (typed_data_json td)),
                           (''chain'', JString ''EVM'')]))
           (auditSigningRequest userId (uuid_source w (uuids_drawn w)) ''signTypedData''
              (w\<lparr>uuids_drawn := Suc (uuids_drawn w)\<rparr>)) = (r0, w0)"
      by fastforce
    show "last (auditLogs (snd (signTypedData remote userId td w))) =
        \<lparr>au_userId = userId, au_action = SIGNING_FAILED,
         au_details = [(''correlationId'', DString (uuid_source w (uuids_drawn w))),
                       (''error'', DString (error_message e))]\<rparr> \<and>
      last (trace (snd (signTypedData remote userId td w))) = EvAudit
        \<lparr>au_userId = userId, au_action = SIGNING_FAILED,
         au_details = [(''correlationId'', DString (uuid_source w (uuids_drawn w))),
                       (''error'', DString (error_message e))]\<rparr>"
      by (rule envelope_failed [OF c signTypedData_ready [OF f s c] e])
  qed
  have r2: "serverWallet_findUnique userId w = Some sw \<and> sw_status sw = READY \<and>
    fst (signMessage remote userId msg w) = Inl e \<longrightarrow>
      last (auditLogs (snd (signMessage remote userId msg w))) =
        \<lparr>au_userId = userId, au_action = SIGNING_FAILED,
         au_details = [(''correlationId'', DString (uuid_source w (uuids_drawn w))),
                       (''error'', DString (error_message e))]\<rparr> \<and>
      last (trace (snd (signMessage remote userId msg w))) = EvAudit
        \<lparr>au_userId = userId, au_action = SIGNING_FAILED,
         au_details = [(''correlationId'', DString (uuid_source w (uuids_drawn w))),
                       (''error'', DString (error_message e))]\<rparr>"
  proof
    assume a: "serverWallet_findUnique userId w = Some sw \<and> sw_status sw = READY \<and>
      fst (signMessage remote userId msg w) = Inl e"
    then have f: "serverWallet_findUnique userId w = Some sw" and s: "sw_status sw = READY"
      and e: "fst (signMessage remote userId msg w) = Inl e" by simp_all
    obtain r0 w0 where c: "callDynamicWithRetry remote
           (''server-wallets/'' @ sw_dynamicServerWalletId sw @ ''/sign'') POST
           (Some (JObject [(''message'', JString (case msg of MsgString s \<Rightarrow> s
                                                   | MsgBytes bs \<Rightarrow> buffer_hex bs)),
                           (''encoding'', JString (case msg of MsgString s \<Rightarrow> ''utf8''
                                                    | MsgBytes bs \<Rightarrow> ''hex'')),
                           (''chain'', JString ''EVM'')]))
           (auditSigningRequest userId (uuid_source w (uuids_drawn w)) ''signMessage''
              (w\<lparr>uuids_drawn := Suc (uuids_drawn w)\<rparr>)) = (r0, w0)"
      by fastforce
    show "last (auditLogs (snd (signMessage remote userId msg w))) =
        \<lparr>au_userId = userId, au_action = SIGNING_FAILED,
         au_details = [(''correlationId'', DString (uuid_source w (uuids_drawn w))),
                       (''error'', DString (error_message e))]\<rparr> \<and>
      last (trace (snd (signMessage remote userId msg w))) = EvAudit
        \<lparr>au_userId = userId, au_action = SIGNING_FAILED,
         au_details = [(''correlationId'', DString (uuid_source w (uuids_drawn w))),
                       (''error'', DString (error_message e))]\<rparr>"
      by (rule envelope_failed [OF c signMessage_ready [OF f s c] e])
  qed
  have r3: "serverWallet_findUnique userId w = Some sw \<and> sw_status sw = READY \<and>
    fst (executeTransaction remote_tx userId tx w) = Inl e \<longrightarrow>
      last (auditLogs (snd (executeTransaction remote_tx userId tx w))) =
        \<lparr>au_userId = userId, au_action = SIGNING_FAILED,
         au_details = [(''correlationId'', DString (uuid_source w (uuids_drawn w))),
                       (''error'', DString (error_message e))]\<rparr> \<and>
      last (trace (snd (executeTransaction remote_tx userId tx w))) = EvAudit
        \<lparr>au_userId = userId, au_action = SIGNING_FAILED,
         au_details = [(''correlationId'', DString (uuid_source w (uuids_drawn w))),
                       (''error'', DString (error_message e))]\<rparr>"
  proof
    assume a: "serverWallet_findUnique userId w = Some sw \<and> sw_status sw = READY \<and>
      fst (executeTransaction remote_tx userId tx w) = Inl e"
    then have f: "serverWallet_findUnique userId w = Some sw" and s: "sw_status sw = READY"
      and e: "fst (executeTransaction remote_tx userId tx w) = Inl e" by simp_all
    obtain r0 w0 where c: "callDynamicWithRetry remote_tx
           (''server-wallets/'' @ sw_dynamicServerWalletId sw @ ''/sign-transaction'') POST
           (Some (JObject
              [(''transaction'', JObject
                  [(''to'', JString (tx_to tx)),
                   (''data'', JString (tx_data tx)),
                   (''value'', JString (case tx_value tx of None \<Rightarrow> ''0'' | Some v \<Rightarrow> v)),
                   (''chainId'', JNumber (case tx_chainId tx of None \<Rightarrow> 137 | Some c \<Rightarrow> c))]),
               (''chain'', JString ''EVM''),
               (''broadcast'', JBool True)]))
           (auditSigningRequest userId (uuid_source w (uuids_drawn w)) ''executeTransaction''
              (w\<lparr>uuids_drawn := Suc (uuids_drawn w)\<rparr>)) = (r0, w0)"
      by fastforce
    show "last (auditLogs (snd (executeTransaction remote_tx userId tx w))) =
        \<lparr>au_userId = userId, au_action = SIGNING_FAILED,
         au_details = [(''correlationId'', DString (uuid_source w (uuids_drawn w))),
                       (''error'', DString (error_message e))]\<rparr> \<and>
      last (trace (snd (executeTransaction remote_tx userId tx w))) = EvAudit
        \<lparr>au_userId = userId, au_action = SIGNING_FAILED,
         au_details = [(''correlationId'', DString (uuid_source w (uuids_drawn w))),
                       (''error'', DString (error_message e))]\<rparr>"
      by (rule envelope_failed [OF c executeTransaction_ready [OF f s c] e])
  qed
  show ?thesis
    by (rule conjI [OF nr conjI [OF r1 conjI [OF r2 r3]]])
qed

text \<open>
  A signing operation that fails because the record is absent, or present and not
  \<open>READY\<close>, leaves the audit log and the trace empty.
\<close>

theorem not_ready_writes_no_audit:
  "serverWallet_findUnique ''alice'' empty_world = None \<and>
   fst (signMessage (answers (Obj \<lparr>signature = ''0xsig''\<rparr>)) ''alice'' (MsgString ''hello'') empty_world)
     = Inl (AppError SERVER_WALLET_NOT_READY ''Server wallet is not ready for signing'' 503) \<and>
   auditLogs (snd (signMessage (answers (Obj \<lparr>signature = ''0xsig''\<rparr>)) ''alice'' (MsgString ''hello'')
                empty_world)) = [] \<and>
   trace (snd (signMessage (answers (Obj \<lparr>signature = ''0xsig''\<rparr>)) ''alice'' (MsgString ''hello'')
                empty_world)) = [] \<and>
   fst (signMessage (answers (Obj \<lparr>signature = ''0xsig''\<rparr>)) ''alice'' (MsgString ''hello'')
          (alice_world FAILED))
     = Inl (AppError SERVER_WALLET_NOT_READY ''Server wallet is not ready for signing'' 503) \<and>
   auditLogs (snd (signMessage (answers (Obj \<lparr>signature = ''0xsig''\<rparr>)) ''alice'' (MsgString ''hello'')
                (alice_world FAILED))) = []"
  by (simp add: signMessage_def world_defs step_defs)

theorem signing_failure_audit_witness:
  "serverWallet_findUnique ''alice'' (alice_world READY) = Some (alice_wallet READY) \<and>
   sw_status (alice_wallet READY) = READY \<and>
   fst (signTypedData times_out ''alice''
          \<lparr>td_types = [], td_primaryType = ''Order'', td_domain = [], td_message = []\<rparr>
          (alice_world READY))
     = Inl (AppError SIGNING_UNAVAILABLE ''The operation was aborted due to timeout'' 503) \<and>
   last (auditLogs (snd (signTypedData times_out ''alice''
          \<lparr>td_types = [], td_primaryType = ''Order'', td_domain = [], td_message = []\<rparr>
          (alice_world READY)))) =
     \<lparr>au_userId = ''alice'', au_action = SIGNING_FAILED,
      au_details = [(''correlationId'', DString ''u''),
                    (''error'', DString ''The operation was aborted due to timeout'')]\<rparr> \<and>
   executeTransaction times_out ''alice''
       \<lparr>tx_to = ''0xb0b'', tx_data = ''0x'', tx_value = None, tx_chainId = None\<rparr>
       (alice_world CREATING) =
     (Inl (AppError SERVER_WALLET_NOT_READY ''Server wallet is not ready for signing'' 503),
      (alice_world CREATING)\<lparr>uuids_drawn := 1\<rparr>)"
proof -
  let ?t = "times_out :: nat \<Rightarrow> DynamicSignResponse json_body fetch_outcome"
  let ?tt = "times_out :: nat \<Rightarrow> tx_response json_body fetch_outcome"
  let ?tx = "\<lparr>tx_to = ''0xb0b'', tx_data = ''0x'', tx_value = None, tx_chainId = None\<rparr>"
  let ?td = "\<lparr>td_types = [], td_primaryType = ''Order'', td_domain = [], td_message = []\<rparr>"
  let ?e = "AppError SIGNING_UNAVAILABLE ''The operation was aborted due to timeout'' 503"
  have f: "serverWallet_findUnique ''alice'' (alice_world READY) = Some (alice_wallet READY)"
    and s: "sw_status (alice_wallet READY) = READY"
    by (simp_all add: world_defs step_defs)
  have nr: "\<forall>r. serverWallet_findUnique ''alice'' (alice_world CREATING) = Some r
              \<longrightarrow> sw_status r \<noteq> READY"
    by (simp add: world_defs step_defs)
  have r: "fst (signTypedData ?t ''alice'' ?td (alice_world READY)) = Inl ?e"
    by (simp add: signTypedData_def world_defs step_defs)
  have w: "uuid_source (alice_world READY) (uuids_drawn (alice_world READY)) = ''u''"
    "uuids_drawn (alice_world CREATING) = 0"
    by (simp_all add: world_defs)
  from signing_failure_audit [of "''alice''" "alice_world READY" ?t ?td "MsgString ''hello''" ?tt ?tx
         "alice_wallet READY" ?e] f s r
  have 1: "last (auditLogs (snd (signTypedData ?t ''alice'' ?td (alice_world READY)))) =
        \<lparr>au_userId = ''alice'', au_action = SIGNING_FAILED,
         au_details = [(''correlationId'',
                          DString (uuid_source (alice_world READY) (uuids_drawn (alice_world READY)))),
                       (''error'', DString (error_message ?e))]\<rparr>"
    by blast
  from signing_failure_audit [of "''alice''" "alice_world CREATING" ?t ?td "MsgString ''hello''" ?tt ?tx
         "alice_wallet READY" ?e] nr
  have 2: "executeTransaction ?tt ''alice'' ?tx (alice_world CREATING) =
        (Inl (AppError SERVER_WALLET_NOT_READY ''Server wallet is not ready for signing'' 503),
         (alice_world CREATING)\<lparr>uuids_drawn := Suc (uuids_drawn (alice_world CREATING))\<rparr>)"
    by blast
  from f s r 1 2 w show ?thesis by simp
qed

subsection \<open>Decimal text and parseInt\<close>

lemma of_char_digit_char: "d < 10 \<Longrightarrow> (of_char (digit_char d) :: nat) = 48 + d"
  by (simp add: digit_char_def)

lemma is_digit_digit_char: "d < 10 \<Longrightarrow> is_digit (digit_char d)"
  by (simp add: is_digit_def of_char_digit_char)

lemma is_space_code: "is_space c \<Longrightarrow> (of_char c :: nat) < 48"
  by (auto simp: is_space_def)

lemma sign_code: "c = CHR ''-'' \<or> c = CHR ''+'' \<Longrightarrow> (of_char c :: nat) < 48"
  by auto

lemma digits_value_snoc:
  "digits_value (ds @ [c]) = 10 * digits_value ds + (of_char c - 48)"
  by (simp add: digits_value_def)

lemma show_nat_digits: "show_nat n \<noteq> [] \<and> list_all is_digit (show_nat n)"
proof (induction n rule: show_nat.induct)
  case (1 n)
  then show ?case
    by (subst (1 2) show_nat.simps) (auto simp: is_digit_digit_char)
qed

lemma digits_value_show_nat: "digits_value (show_nat n) = n"
proof (induction n rule: show_nat.induct)
  case (1 n)
  show ?case
  proof (cases "n < 10")
    case True
    then show ?thesis
      by (subst show_nat.simps) (simp add: digits_value_def of_char_digit_char)
  next
    case False
    with 1 have "digits_value (show_nat (n div 10)) = n div 10" by simp
    with False show ?thesis
      by (subst show_nat.simps) (simp add: digits_value_snoc of_char_digit_char)
  qed
qed

lemma hd_digit_plain:
  assumes "xs \<noteq> []" "list_all is_digit xs"
  shows "\<not> is_space (hd xs)" "hd xs \<noteq> CHR ''-''" "hd xs \<noteq> CHR ''+''"
proof -
  from assms have d: "48 \<le> (of_char (hd xs) :: nat)"
    by (cases xs) (simp_all add: is_digit_def)
  from d is_space_code [of "hd xs"] show "\<not> is_space (hd xs)" by auto
  from d sign_code [of "hd xs"] show "hd xs \<noteq> CHR ''-''" "hd xs \<noteq> CHR ''+''" by auto
qed

lemma parseInt10_digits:
  assumes "xs \<noteq> []" "list_all is_digit xs"
  shows "parseInt10 xs = Num (int (digits_value xs))"
proof -
  note h = hd_digit_plain [OF assms]
  from assms(1) h(1) have dw: "dropWhile is_space xs = xs" by (cases xs) simp_all
  from assms(2) have tw: "takeWhile is_digit xs = xs"
    by (simp add: takeWhile_eq_all_conv list_all_iff)
  show ?thesis
    using assms(1) h(2,3) by (simp add: parseInt10_def dw tw Let_def)
qed

lemma parseInt10_show_nat: "parseInt10 (show_nat n) = Num (int n)"
  using parseInt10_digits [of "show_nat n"] show_nat_digits [of n]
  by (simp add: digits_value_show_nat)

lemma parseInt10_default: "parseInt10 ''2'' = Num 2"
  by (simp add: parseInt10_def is_space_def is_digit_def digits_value_def)

subsection \<open>One pass of the loop\<close>

lemma loop_body_429:
  "k < MAX_RETRIES \<Longrightarrow>
   loop_body p m k (HttpResponse 429 h t j) =
     SleepThenContinue (js_times (parseInt10 (case h of None \<Rightarrow> ''2'' | Some v \<Rightarrow> v)) 1000)"
  by (simp add: loop_body_def try_block_def Let_def)

lemma loop_body_429_last:
  "loop_body p m MAX_RETRIES (HttpResponse 429 h t j) =
     Thrown (AppError RATE_LIMITED ''Dynamic API rate limited'' 429)"
  by (simp add: loop_body_def try_block_def catch_block_def Let_def)

lemma try_block_not_429:
  "\<not> is_429 outcome \<Longrightarrow> try_block p m k outcome = Thrown e \<Longrightarrow> \<not> instanceof_AppError e"
  by (cases outcome)
     (auto simp: try_block_def Let_def split: if_splits sum.splits)

lemma loop_body_thrown:
  "try_block p m k outcome = Thrown e \<Longrightarrow> \<not> instanceof_AppError e \<Longrightarrow>
   loop_body p m k outcome =
     (if k < MAX_RETRIES then SleepThenContinue (Num (BASE_DELAY_MS * 2 ^ k)) else Thrown e)"
  by (simp add: loop_body_def catch_block_def)

text \<open>After a sleep that is followed by another attempt, the next event is a request.\<close>

lemma continue_trace:
  assumes k: "k < MAX_RETRIES"
    and body: "loop_body p m k (remote k) = SleepThenContinue d"
  shows "retry_loop remote p m b k w =
           retry_loop remote p m b (Suc k) (sleep d (emit (EvFetch (the_request p m b w)) w))"
    and "\<exists>evs. trace (snd (retry_loop remote p m b k w)) =
           trace w @ [EvFetch (the_request p m b w), EvSleep d, EvFetch (the_request p m b w)] @ evs"
proof -
  let ?w2 = "sleep d (emit (EvFetch (the_request p m b w)) w)"
  show eq: "retry_loop remote p m b k w = retry_loop remote p m b (Suc k) ?w2"
    using k body by (simp add: retry_loop_step)
  from k have le: "Suc k \<le> MAX_RETRIES" by simp
  from retry_loop_frame [of remote p m b "Suc k" ?w2] le
  obtain evs where evs: "snd (retry_loop remote p m b (Suc k) ?w2) = ?w2\<lparr>trace := trace ?w2 @ evs\<rparr>"
    "evs \<noteq> []" "hd evs = EvFetch (the_request p m b ?w2)"
    by blast
  from evs(2,3) have "evs = EvFetch (the_request p m b w) # tl evs"
    by (cases evs) simp_all
  then have "trace (snd (retry_loop remote p m b k w)) =
      trace w @ [EvFetch (the_request p m b w), EvSleep d, EvFetch (the_request p m b w)] @ tl evs"
    unfolding eq evs(1) by (simp add: sleep_def)
  then show "\<exists>evs. trace (snd (retry_loop remote p m b k w)) =
           trace w @ [EvFetch (the_request p m b w), EvSleep d, EvFetch (the_request p m b w)] @ evs"
    by blast
qed

subsection \<open>Rate limiting\<close>

lemma fetches_append [simp]: "fetches (xs @ ys) = fetches xs + fetches ys"
  by (simp add: fetches_def)

lemma fetches_simps [simp]:
  "fetches [] = 0" "fetches (EvFetch r # xs) = Suc (fetches xs)"
  "fetches (EvSleep d # xs) = fetches xs" "fetches (EvAudit a # xs) = fetches xs"
  by (simp_all add: fetches_def)

lemma is_429_cases: "is_429 outcome \<Longrightarrow> \<exists>h t j. outcome = HttpResponse 429 h t j"
  by (cases outcome) simp_all

lemma always_429:
  "(\<And>i. i \<le> MAX_RETRIES \<Longrightarrow> is_429 (remote i)) \<Longrightarrow> k \<le> MAX_RETRIES \<Longrightarrow>
   fst (retry_loop remote p m b k w) = Inl (AppError RATE_LIMITED ''Dynamic API rate limited'' 429)
   \<and> fetches (trace (snd (retry_loop remote p m b k w))) = fetches (trace w) + (Suc MAX_RETRIES - k)"
proof (induction remote p m b k w rule: retry_loop.induct)
  case (1 remote path meth body attempt w)
  from "1.prems" is_429_cases [of "remote attempt"]
  obtain h t j where o: "remote attempt = HttpResponse 429 h t j" by blast
  show ?case
  proof (cases "attempt < MAX_RETRIES")
    case True
    let ?d = "js_times (parseInt10 (case h of None \<Rightarrow> ''2'' | Some v \<Rightarrow> v)) 1000"
    let ?w2 = "sleep ?d (emit (EvFetch (the_request path meth body w)) w)"
    from True o have lb: "loop_body path meth attempt (remote attempt) = SleepThenContinue ?d"
      by (simp add: loop_body_429)
    from True have le: "attempt \<le> MAX_RETRIES" "Suc attempt \<le> MAX_RETRIES" by simp_all
    from "1.IH" [OF le(1) refl lb "1.prems"(1) le(2)]
    have ih: "fst (retry_loop remote path meth body (Suc attempt) ?w2) =
                Inl (AppError RATE_LIMITED ''Dynamic API rate limited'' 429)"
      "fetches (trace (snd (retry_loop remote path meth body (Suc attempt) ?w2))) =
         fetches (trace ?w2) + (Suc MAX_RETRIES - Suc attempt)"
      by simp_all
    from continue_trace(1) [where remote = remote, OF True lb, of body w] ih True show ?thesis
      by (simp add: sleep_def)
  next
    case False
    with "1.prems" have eq: "attempt = MAX_RETRIES" by simp
    with o show ?thesis
      by (simp add: retry_loop_step loop_body_429_last)
  qed
qed

text \<open>
  Claim C5. Let attempt \<open>k\<close> of the loop be answered with status 429. When retries remain
  (\<open>k < MAX_RETRIES\<close>) the loop sends the request, calls \<open>sleep\<close> and only then sends the
  next request; the duration passed to \<open>sleep\<close> is 2000 ms when the response has no
  \<open>Retry-After\<close> header and \<open>n * 1000\<close> ms when the header is the decimal text of \<open>n\<close>
  (3000 ms for \<open>Retry-After: 3\<close>), for \<open>n * 1000\<close> in the range where a JavaScript number
  is exact. On the last attempt (\<open>k = MAX_RETRIES\<close>) the loop throws \<open>RATE_LIMITED\<close>. A
  call answered with 429 throughout sends \<open>MAX_RETRIES + 1\<close> requests and fails with
  \<open>RATE_LIMITED\<close>. The event \<open>EvSleep\<close> records the argument of \<open>sleep\<close>.
\<close>

theorem rate_limit_retry:
  "(k < MAX_RETRIES \<and> remote k = HttpResponse 429 None t j \<longrightarrow>
      retry_loop remote p m b k w =
        retry_loop remote p m b (Suc k)
          (sleep (Num 2000) (emit (EvFetch (the_request p m b w)) w)) \<and>
      (\<exists>evs. trace (snd (retry_loop remote p m b k w)) =
         trace w @ [EvFetch (the_request p m b w), EvSleep (Num 2000),
                    EvFetch (the_request p m b w)] @ evs)) \<and>
   (k < MAX_RETRIES \<and> remote k = HttpResponse 429 (Some (show_nat n)) t j \<and>
    int n * 1000 < 2 ^ 53 \<longrightarrow>
      retry_loop remote p m b k w =
        retry_loop remote p m b (Suc k)
          (sleep (Num (int n * 1000)) (emit (EvFetch (the_request p m b w)) w)) \<and>
      (\<exists>evs. trace (snd (retry_loop remote p m b k w)) =
         trace w @ [EvFetch (the_request p m b w), EvSleep (Num (int n * 1000)),
                    EvFetch (the_request p m b w)] @ evs)) \<and>
   (remote MAX_RETRIES = HttpResponse 429 h t j \<longrightarrow>
      retry_loop remote p m b MAX_RETRIES w =
        (Inl (AppError RATE_LIMITED ''Dynamic API rate limited'' 429),
         emit (EvFetch (the_request p m b w)) w)) \<and>
   ((\<forall>i\<le>MAX_RETRIES. is_429 (remote i)) \<longrightarrow>
      fst (callDynamicWithRetry remote p m b w) =
        Inl (AppError RATE_LIMITED ''Dynamic API rate limited'' 429) \<and>
      fetches (trace (snd (callDynamicWithRetry remote p m b w))) =
        fetches (trace w) + Suc MAX_RETRIES)"
proof -
  have a: "k < MAX_RETRIES \<and> remote k = HttpResponse 429 None t j \<longrightarrow>
      retry_loop remote p m b k w =
        retry_loop remote p m b (Suc k)
          (sleep (Num 2000) (emit (EvFetch (the_request p m b w)) w)) \<and>
      (\<exists>evs. trace (snd (retry_loop remote p m b k w)) =
         trace w @ [EvFetch (the_request p m b w), EvSleep (Num 2000),
                    EvFetch (the_request p m b w)] @ evs)"
  proof
    assume h: "k < MAX_RETRIES \<and> remote k = HttpResponse 429 None t j"
    then have k: "k < MAX_RETRIES" by simp
    from h have lb: "loop_body p m k (remote k) = SleepThenContinue (Num 2000)"
      by (simp add: loop_body_429 parseInt10_default)
    show "retry_loop remote p m b k w =
        retry_loop remote p m b (Suc k)
          (sleep (Num 2000) (emit (EvFetch (the_request p m b w)) w)) \<and>
      (\<exists>evs. trace (snd (retry_loop remote p m b k w)) =
         trace w @ [EvFetch (the_request p m b w), EvSleep (Num 2000),
                    EvFetch (the_request p m b w)] @ evs)"
      by (rule conjI [OF continue_trace(1) [where remote = remote, OF k lb]
            continue_trace(2) [where remote = remote, OF k lb]])
  qed
  have b: "k < MAX_RETRIES \<and> remote k = HttpResponse 429 (Some (show_nat n)) t j \<and>
    int n * 1000 < 2 ^ 53 \<longrightarrow>
      retry_loop remote p m b k w =
        retry_loop remote p m b (Suc k)
          (sleep (Num (int n * 1000)) (emit (EvFetch (the_request p m b w)) w)) \<and>
      (\<exists>evs. trace (snd (retry_loop remote p m b k w)) =
         trace w @ [EvFetch (the_request p m b w), EvSleep (Num (int n * 1000)),
                    EvFetch (the_request p m b w)] @ evs)"
  proof
    assume h: "k < MAX_RETRIES \<and> remote k = HttpResponse 429 (Some (show_nat n)) t j \<and>
      int n * 1000 < 2 ^ 53"
    then have k: "k < MAX_RETRIES" by simp
    from h have lb: "loop_body p m k (remote k) = SleepThenContinue (Num (int n * 1000))"
      by (simp add: loop_body_429 parseInt10_show_nat)
    show "retry_loop remote p m b k w =
        retry_loop remote p m b (Suc k)
          (sleep (Num (int n * 1000)) (emit (EvFetch (the_request p m b w)) w)) \<and>
      (\<exists>evs. trace (snd (retry_loop remote p m b k w)) =
         trace w @ [EvFetch (the_request p m b w), EvSleep (Num (int n * 1000)),
                    EvFetch (the_request p m b w)] @ evs)"
      by (rule conjI [OF continue_trace(1) [where remote = remote, OF k lb]
            continue_trace(2) [where remote = remote, OF k lb]])
  qed
  have c: "remote MAX_RETRIES = HttpResponse 429 h t j \<longrightarrow>
      retry_loop remote p m b MAX_RETRIES w =
        (Inl (AppError RATE_LIMITED ''Dynamic API rate limited'' 429),
         emit (EvFetch (the_request p m b w)) w)"
    by (simp add: retry_loop_step loop_body_429_last)
  have d: "(\<forall>i\<le>MAX_RETRIES. is_429 (remote i)) \<longrightarrow>
      fst (callDynamicWithRetry remote p m b w) =
        Inl (AppError RATE_LIMITED ''Dynamic API rate limited'' 429) \<and>
      fetches (trace (snd (callDynamicWithRetry remote p m b w))) =
        fetches (trace w) + Suc MAX_RETRIES"
  proof
    assume "\<forall>i\<le>MAX_RETRIES. is_429 (remote i)"
    then have all: "\<And>i. i \<le> MAX_RETRIES \<Longrightarrow> is_429 (remote i)" by blast
    from always_429 [of remote 0 p m b w, OF all]
    show "fst (callDynamicWithRetry remote p m b w) =
        Inl (AppError RATE_LIMITED ''Dynamic API rate limited'' 429) \<and>
      fetches (trace (snd (callDynamicWithRetry remote p m b w))) =
        fetches (trace w) + Suc MAX_RETRIES"
      by (simp add: callDynamicWithRetry_def)
  qed
  show ?thesis
    by (rule conjI [OF a conjI [OF b conjI [OF c d]]])
qed

lemma show_nat_3: "show_nat 3 = ''3''"
  by code_simp

lemmas parse_defs = parseInt10_def is_space_def is_digit_def digits_value_def

theorem rate_limit_retry_witness:
  "0 < MAX_RETRIES \<and>
   (rate_limits (Some ''3'') :: nat \<Rightarrow> wallet_info fetch_outcome) 0
     = HttpResponse 429 (Some (show_nat 3)) (Inr []) (Inl []) \<and>
   int 3 * 1000 < 2 ^ 53 \<and>
   (\<exists>evs. trace (snd (retry_loop (rate_limits (Some ''3'') :: nat \<Rightarrow> wallet_info fetch_outcome)
                          ''server-wallets/dw-1'' GET None 0 empty_world)) =
      trace empty_world @
        [EvFetch (the_request ''server-wallets/dw-1'' GET None empty_world), EvSleep (Num 3000),
         EvFetch (the_request ''server-wallets/dw-1'' GET None empty_world)] @ evs) \<and>
   (\<exists>evs. trace (snd (retry_loop (rate_limits None :: nat \<Rightarrow> wallet_info fetch_outcome)
                          ''server-wallets/dw-1'' GET None 0 empty_world)) =
      trace empty_world @
        [EvFetch (the_request ''server-wallets/dw-1'' GET None empty_world), EvSleep (Num 2000),
         EvFetch (the_request ''server-wallets/dw-1'' GET None empty_world)] @ evs) \<and>
   fst (callDynamicWithRetry (rate_limits (Some ''3'') :: nat \<Rightarrow> wallet_info fetch_outcome)
          ''server-wallets/dw-1'' GET None empty_world)
     = Inl (AppError RATE_LIMITED ''Dynamic API rate limited'' 429) \<and>
   fetches (trace (snd (callDynamicWithRetry
          (rate_limits (Some ''3'') :: nat \<Rightarrow> wallet_info fetch_outcome)
          ''server-wallets/dw-1'' GET None empty_world))) = 4 \<and>
   map (\<lambda>e. case e of EvSleep d \<Rightarrow> Some d | _ \<Rightarrow> None)
     (trace (snd (callDynamicWithRetry
          (rate_limits (Some ''3'') :: nat \<Rightarrow> wallet_info fetch_outcome)
          ''server-wallets/dw-1'' GET None empty_world)))
     = [None, Some (Num 3000), None, Some (Num 3000), None, Some (Num 3000), None]"
proof -
  let ?r3 = "rate_limits (Some ''3'') :: nat \<Rightarrow> wallet_info fetch_outcome"
  let ?r0 = "rate_limits None :: nat \<Rightarrow> wallet_info fetch_outcome"
  let ?p = "''server-wallets/dw-1''"
  have k: "0 < MAX_RETRIES" by (simp add: MAX_RETRIES_def)
  have h3: "?r3 0 = HttpResponse 429 (Some (show_nat 3)) (Inr []) (Inl [])"
    by (simp add: rate_limits_def show_nat_3)
  have h0: "?r0 0 = HttpResponse 429 None (Inr []) (Inl [])"
    by (simp add: rate_limits_def)
  have n: "int 3 * 1000 < 2 ^ 53" by simp
  have all: "\<forall>i\<le>MAX_RETRIES. is_429 (?r3 i)" by (simp add: rate_limits_def)
  have t0: "fetches (trace empty_world) = 0" by (simp add: empty_world_def)
  from rate_limit_retry [of 0 ?r3 "Inr []" "Inl []" ?p GET None empty_world 3] k h3 n all
  have 1: "\<exists>evs. trace (snd (retry_loop ?r3 ?p GET None 0 empty_world)) =
      trace empty_world @
        [EvFetch (the_request ?p GET None empty_world), EvSleep (Num (int 3 * 1000)),
         EvFetch (the_request ?p GET None empty_world)] @ evs"
    and 2: "fst (callDynamicWithRetry ?r3 ?p GET None empty_world)
              = Inl (AppError RATE_LIMITED ''Dynamic API rate limited'' 429)"
    and 3: "fetches (trace (snd (callDynamicWithRetry ?r3 ?p GET None empty_world))) =
              fetches (trace empty_world) + Suc MAX_RETRIES"
    by blast+
  from rate_limit_retry [of 0 ?r0 "Inr []" "Inl []" ?p GET None empty_world 3] k h0
  have 4: "\<exists>evs. trace (snd (retry_loop ?r0 ?p GET None 0 empty_world)) =
      trace empty_world @
        [EvFetch (the_request ?p GET None empty_world), EvSleep (Num 2000),
         EvFetch (the_request ?p GET None empty_world)] @ evs"
    by blast
  have 5: "map (\<lambda>e. case e of EvSleep d \<Rightarrow> Some d | _ \<Rightarrow> None)
     (trace (snd (callDynamicWithRetry ?r3 ?p GET None empty_world)))
     = [None, Some (Num 3000), None, Some (Num 3000), None, Some (Num 3000), None]"
    by (simp add: world_defs step_defs parse_defs)
  from k h3 n 1 2 3 4 5 t0 show ?thesis
    by (simp add: MAX_RETRIES_def)
qed

subsection \<open>Backoff\<close>

lemma try_block_rejects:
  "try_block p m k (FetchRejects msg) = Thrown (JsError msg)"
  by (simp add: try_block_def)

lemma try_block_status:
  "st \<noteq> 429 \<Longrightarrow> \<not> res_ok st \<Longrightarrow>
   try_block p m k (HttpResponse st h (Inr errorBody) j) =
     Thrown (JsError (''Dynamic API '' @ method_name m @ '' '' @ p @ '' failed: ''
                        @ show_nat st @ '' '' @ errorBody))"
  by (simp add: try_block_def)

text \<open>
  Claim C6. Let the \<open>try\<close> block of attempt \<open>k\<close> throw on an outcome that is not a 429
  response: a rejected \<open>fetch\<close> (network failure or timeout), a status outside 200..299,
  or a body that cannot be read. What it throws is not an \<open>AppError\<close>. When retries remain
  the loop sleeps \<open>BASE_DELAY_MS * 2 ^ k\<close> ms and then sends the next request; on the last
  attempt it throws that same error, unchanged. A call sends at least one and at most four
  requests, \<open>MAX_RETRIES\<close> being 3 and \<open>BASE_DELAY_MS\<close> 500.
\<close>

theorem backoff_retry:
  "(\<not> is_429 (remote k) \<and> try_block p m k (remote k) = Thrown e \<longrightarrow>
      \<not> instanceof_AppError e \<and>
      (k < MAX_RETRIES \<longrightarrow>
         retry_loop remote p m b k w =
           retry_loop remote p m b (Suc k)
             (sleep (Num (BASE_DELAY_MS * 2 ^ k)) (emit (EvFetch (the_request p m b w)) w)) \<and>
         (\<exists>evs. trace (snd (retry_loop remote p m b k w)) =
            trace w @ [EvFetch (the_request p m b w), EvSleep (Num (BASE_DELAY_MS * 2 ^ k)),
                       EvFetch (the_request p m b w)] @ evs)) \<and>
      (k = MAX_RETRIES \<longrightarrow>
         retry_loop remote p m b k w = (Inl e, emit (EvFetch (the_request p m b w)) w))) \<and>
   try_block p m k (FetchRejects msg :: 'a fetch_outcome) = Thrown (JsError msg) \<and>
   (st \<noteq> 429 \<and> \<not> res_ok st \<longrightarrow>
      try_block p m k (HttpResponse st h (Inr errorBody) j :: 'a fetch_outcome) =
        Thrown (JsError (''Dynamic API '' @ method_name m @ '' '' @ p @ '' failed: ''
                           @ show_nat st @ '' '' @ errorBody))) \<and>
   (\<exists>evs. snd (callDynamicWithRetry remote p m b w) = w\<lparr>trace := trace w @ evs\<rparr> \<and>
      1 \<le> fetches evs \<and> fetches evs \<le> 4) \<and>
   MAX_RETRIES = 3 \<and> BASE_DELAY_MS = 500"
proof -
  have a: "\<not> is_429 (remote k) \<and> try_block p m k (remote k) = Thrown e \<longrightarrow>
      \<not> instanceof_AppError e \<and>
      (k < MAX_RETRIES \<longrightarrow>
         retry_loop remote p m b k w =
           retry_loop remote p m b (Suc k)
             (sleep (Num (BASE_DELAY_MS * 2 ^ k)) (emit (EvFetch (the_request p m b w)) w)) \<and>
         (\<exists>evs. trace (snd (retry_loop remote p m b k w)) =
            trace w @ [EvFetch (the_request p m b w), EvSleep (Num (BASE_DELAY_MS * 2 ^ k)),
                       EvFetch (the_request p m b w)] @ evs)) \<and>
      (k = MAX_RETRIES \<longrightarrow>
         retry_loop remote p m b k w = (Inl e, emit (EvFetch (the_request p m b w)) w))"
  proof
    assume h: "\<not> is_429 (remote k) \<and> try_block p m k (remote k) = Thrown e"
    then have tb: "try_block p m k (remote k) = Thrown e" by simp
    from h try_block_not_429 [of "remote k" p m k e] have ne: "\<not> instanceof_AppError e" by simp
    note lb = loop_body_thrown [OF tb ne]
    have c: "k < MAX_RETRIES \<longrightarrow>
         retry_loop remote p m b k w =
           retry_loop remote p m b (Suc k)
             (sleep (Num (BASE_DELAY_MS * 2 ^ k)) (emit (EvFetch (the_request p m b w)) w)) \<and>
         (\<exists>evs. trace (snd (retry_loop remote p m b k w)) =
            trace w @ [EvFetch (the_request p m b w), EvSleep (Num (BASE_DELAY_MS * 2 ^ k)),
                       EvFetch (the_request p m b w)] @ evs)"
    proof
      assume k: "k < MAX_RETRIES"
      with lb have lb': "loop_body p m k (remote k) = SleepThenContinue (Num (BASE_DELAY_MS * 2 ^ k))"
        by simp
      show "retry_loop remote p m b k w =
           retry_loop remote p m b (Suc k)
             (sleep (Num (BASE_DELAY_MS * 2 ^ k)) (emit (EvFetch (the_request p m b w)) w)) \<and>
         (\<exists>evs. trace (snd (retry_loop remote p m b k w)) =
            trace w @ [EvFetch (the_request p m b w), EvSleep (Num (BASE_DELAY_MS * 2 ^ k)),
                       EvFetch (the_request p m b w)] @ evs)"
        by (rule conjI [OF continue_trace(1) [where remote = remote, OF k lb']
              continue_trace(2) [where remote = remote, OF k lb']])
    qed
    have d: "k = MAX_RETRIES \<longrightarrow>
         retry_loop remote p m b k w = (Inl e, emit (EvFetch (the_request p m b w)) w)"
    proof
      assume k: "k = MAX_RETRIES"
      with lb have "loop_body p m k (remote k) = Thrown e" by simp
      with k show "retry_loop remote p m b k w = (Inl e, emit (EvFetch (the_request p m b w)) w)"
        by (simp add: retry_loop_step)
    qed
    show "\<not> instanceof_AppError e \<and>
      (k < MAX_RETRIES \<longrightarrow>
         retry_loop remote p m b k w =
           retry_loop remote p m b (Suc k)
             (sleep (Num (BASE_DELAY_MS * 2 ^ k)) (emit (EvFetch (the_request p m b w)) w)) \<and>
         (\<exists>evs. trace (snd (retry_loop remote p m b k w)) =
            trace w @ [EvFetch (the_request p m b w), EvSleep (Num (BASE_DELAY_MS * 2 ^ k)),
                       EvFetch (the_request p m b w)] @ evs)) \<and>
      (k = MAX_RETRIES \<longrightarrow>
         retry_loop remote p m b k w = (Inl e, emit (EvFetch (the_request p m b w)) w))"
      by (rule conjI [OF ne conjI [OF c d]])
  qed
  have b: "st \<noteq> 429 \<and> \<not> res_ok st \<longrightarrow>
      try_block p m k (HttpResponse st h (Inr errorBody) j :: 'a fetch_outcome) =
        Thrown (JsError (''Dynamic API '' @ method_name m @ '' '' @ p @ '' failed: ''
                           @ show_nat st @ '' '' @ errorBody))"
    by (simp add: try_block_status)
  have c: "\<exists>evs. snd (callDynamicWithRetry remote p m b w) = w\<lparr>trace := trace w @ evs\<rparr> \<and>
      1 \<le> fetches evs \<and> fetches evs \<le> 4"
  proof -
    from call_frame [of remote p m b w "fst (callDynamicWithRetry remote p m b w)"
           "snd (callDynamicWithRetry remote p m b w)"]
    obtain evs where e: "snd (callDynamicWithRetry remote p m b w) = w\<lparr>trace := trace w @ evs\<rparr>"
      "evs \<noteq> []" "hd evs = EvFetch (the_request p m b w)" "fetches evs \<le> Suc MAX_RETRIES"
      by auto
    from e(2,3) have "1 \<le> fetches evs" by (cases evs) simp_all
    with e(1,4) show ?thesis by (auto simp: MAX_RETRIES_def)
  qed
  have d: "MAX_RETRIES = 3 \<and> BASE_DELAY_MS = 500"
    by (simp add: MAX_RETRIES_def BASE_DELAY_MS_def)
  show ?thesis
    by (rule conjI [OF a conjI [OF try_block_rejects conjI [OF b conjI [OF c d]]]])
qed

theorem backoff_retry_witness:
  "\<not> is_429 ((times_out :: nat \<Rightarrow> wallet_info fetch_outcome) 0) \<and>
   try_block ''server-wallets/dw-1'' GET 0 ((times_out :: nat \<Rightarrow> wallet_info fetch_outcome) 0)
     = Thrown (JsError ''The operation was aborted due to timeout'') \<and>
   (\<exists>evs. trace (snd (retry_loop (times_out :: nat \<Rightarrow> wallet_info fetch_outcome)
                          ''server-wallets/dw-1'' GET None 0 empty_world)) =
      trace empty_world @
        [EvFetch (the_request ''server-wallets/dw-1'' GET None empty_world), EvSleep (Num 500),
         EvFetch (the_request ''server-wallets/dw-1'' GET None empty_world)] @ evs) \<and>
   retry_loop (times_out :: nat \<Rightarrow> wallet_info fetch_outcome)
       ''server-wallets/dw-1'' GET None 3 empty_world =
     (Inl (JsError ''The operation was aborted due to timeout''),
      emit (EvFetch (the_request ''server-wallets/dw-1'' GET None empty_world)) empty_world) \<and>
   try_block ''server-wallets/dw-1'' GET 0 ((server_errors :: nat \<Rightarrow> wallet_info fetch_outcome) 0)
     = Thrown (JsError ''Dynamic API GET server-wallets/dw-1 failed: 500 down'') \<and>
   fst (callDynamicWithRetry (times_out :: nat \<Rightarrow> wallet_info fetch_outcome)
          ''server-wallets/dw-1'' GET None empty_world)
     = Inl (JsError ''The operation was aborted due to timeout'') \<and>
   map (\<lambda>e. case e of EvSleep d \<Rightarrow> Some d | _ \<Rightarrow> None)
     (trace (snd (callDynamicWithRetry (times_out :: nat \<Rightarrow> wallet_info fetch_outcome)
          ''server-wallets/dw-1'' GET None empty_world)))
     = [None, Some (Num 500), None, Some (Num 1000), None, Some (Num 2000), None]"
proof -
  let ?t = "times_out :: nat \<Rightarrow> wallet_info fetch_outcome"
  let ?s = "server_errors :: nat \<Rightarrow> wallet_info fetch_outcome"
  let ?p = "''server-wallets/dw-1''"
  let ?e = "JsError ''The operation was aborted due to timeout''"
  have n0: "\<not> is_429 (?t 0)" and n3: "\<not> is_429 (?t 3)" by (simp_all add: times_out_def)
  have t0: "try_block ?p GET 0 (?t 0) = Thrown ?e" and t3: "try_block ?p GET 3 (?t 3) = Thrown ?e"
    by (simp_all add: times_out_def try_block_def)
  have k0: "0 < MAX_RETRIES" and k3: "3 = MAX_RETRIES" by (simp_all add: MAX_RETRIES_def)
  have st: "(500::nat) \<noteq> 429 \<and> \<not> res_ok 500" by (simp add: res_ok_def)
  have se: "?s 0 = HttpResponse 500 None (Inr ''down'') (Inl [])" by (simp add: server_errors_def)
  from backoff_retry [where remote = ?t and k = 0 and p = ?p and m = GET and e = ?e and b = None
         and w = empty_world and st = 500 and h = None and errorBody = "''down''"
         and j = "Inl [] :: string + wallet_info" and msg = "[]"] n0 t0 k0 st
  have 1: "\<exists>evs. trace (snd (retry_loop ?t ?p GET None 0 empty_world)) =
      trace empty_world @
        [EvFetch (the_request ?p GET None empty_world), EvSleep (Num (BASE_DELAY_MS * 2 ^ 0)),
         EvFetch (the_request ?p GET None empty_world)] @ evs"
    and 2: "try_block ?p GET 0 (HttpResponse 500 None (Inr ''down'') (Inl []) :: wallet_info fetch_outcome) =
        Thrown (JsError (''Dynamic API '' @ method_name GET @ '' '' @ ?p @ '' failed: ''
                           @ show_nat 500 @ '' '' @ ''down''))"
    by blast+
  from backoff_retry [where remote = ?t and k = 3 and p = ?p and m = GET and e = ?e and b = None
         and w = empty_world] n3 t3 k3
  have 3: "retry_loop ?t ?p GET None 3 empty_world =
      (Inl ?e, emit (EvFetch (the_request ?p GET None empty_world)) empty_world)"
    by blast
  have 4: "fst (callDynamicWithRetry ?t ?p GET None empty_world) = Inl ?e"
    by (simp add: world_defs step_defs)
  have 5: "map (\<lambda>e. case e of EvSleep d \<Rightarrow> Some d | _ \<Rightarrow> None)
     (trace (snd (callDynamicWithRetry ?t ?p GET None empty_world)))
     = [None, Some (Num 500), None, Some (Num 1000), None, Some (Num 2000), None]"
    by (simp add: world_defs step_defs)
  from n0 t0 1 2 3 4 5 se show ?thesis
    by (simp add: BASE_DELAY_MS_def method_name_def show_nat_500)
qed

end
